theory Spec2Isabelle
  imports Main
begin

text \<open>
  A model of the chess server's engine supervisor (\<^verbatim>\<open>stockfishService.js\<close> with
  \<^verbatim>\<open>stockfishConfig.js\<close>) and of its game service (\<^verbatim>\<open>gameService.js\<close>: playing a move and
  the post-game analysis), written function by function from the JavaScript. State is
  passed explicitly, a thrown error is a value, and everything outside the repository
  (the rules engine, the output of the engine process) is a parameter. The definitions
  come first, the properties after them.
\<close>

section \<open>Values shared by the services\<close>

text \<open>
  A JavaScript \<^verbatim>\<open>new Error(message)\<close> is the value \<open>Error message\<close>; a function that
  can throw returns \<open>error + 'a\<close>, with \<open>Inl\<close> for the thrown error.
\<close>

datatype error = Error string

fun message :: "error \<Rightarrow> string" where
  "message (Error m) = m"

text \<open>
  Numbers are rendered in template literals (\<^verbatim>\<open>`${config.elo}`\<close>) in decimal, with a
  leading minus sign for a negative number.
\<close>

fun showNat :: "nat \<Rightarrow> string" where
  "showNat n =
     (if n < 10 then [''0123456789'' ! n]
      else showNat (n div 10) @ [''0123456789'' ! (n mod 10)])"

declare showNat.simps [simp del]

definition showInt :: "int \<Rightarrow> string" where
  "showInt i = (if i < 0 then ''-'' @ showNat (nat (- i)) else showNat (nat i))"

section \<open>The difficulty table (config/stockfishConfig.js)\<close>

record level_config =
  skillLevel :: int
  depth :: int
  movetime :: int
  elo :: int
  contempt :: int

text \<open>The object literal \<^verbatim>\<open>stockfishDifficultyLevels\<close>, key by key.\<close>

definition difficultyTable :: "(int \<times> level_config) list" where
  "difficultyTable =
     [(1, \<lparr>skillLevel = 0, depth = 1, movetime = 1000, elo = 800, contempt = -100\<rparr>),
      (2, \<lparr>skillLevel = 2, depth = 2, movetime = 100, elo = 1000, contempt = -75\<rparr>),
      (3, \<lparr>skillLevel = 4, depth = 3, movetime = 150, elo = 1200, contempt = -50\<rparr>),
      (4, \<lparr>skillLevel = 6, depth = 4, movetime = 200, elo = 1400, contempt = -25\<rparr>),
      (5, \<lparr>skillLevel = 8, depth = 5, movetime = 250, elo = 1600, contempt = 0\<rparr>),
      (6, \<lparr>skillLevel = 10, depth = 6, movetime = 300, elo = 1800, contempt = 25\<rparr>),
      (7, \<lparr>skillLevel = 12, depth = 8, movetime = 400, elo = 2000, contempt = 50\<rparr>),
      (8, \<lparr>skillLevel = 14, depth = 10, movetime = 500, elo = 2200, contempt = 75\<rparr>),
      (9, \<lparr>skillLevel = 16, depth = 12, movetime = 750, elo = 2400, contempt = 100\<rparr>),
      (10, \<lparr>skillLevel = 20, depth = 15, movetime = 1000, elo = 3000, contempt = 100\<rparr>)]"

text \<open>
  \<^verbatim>\<open>stockfishDifficultyLevels[level]\<close>: the entry of the key, \<open>None\<close> for
  \<^verbatim>\<open>undefined\<close>.
\<close>

definition stockfishDifficultyLevels :: "int \<Rightarrow> level_config option" where
  "stockfishDifficultyLevels level = map_of difficultyTable level"

record stockfish_options =
  options :: "string list"
  searchParams :: string

definition getStockfishOptionsForDifficulty :: "int \<Rightarrow> error + stockfish_options" where
  "getStockfishOptionsForDifficulty level =
     (case stockfishDifficultyLevels level of
        None \<Rightarrow>
          Inl (Error (''Invalid difficulty level: '' @ showInt level
                        @ ''. Must be between 1 and 10.''))
      | Some config \<Rightarrow>
          Inr \<lparr>options =
                 [''setoption name Skill Level value '' @ showInt (skillLevel config),
                  ''setoption name UCI_LimitStrength value true'',
                  ''setoption name UCI_Elo value '' @ showInt (elo config),
                  ''setoption name Contempt value '' @ showInt (contempt config)],
               searchParams =
                 ''go depth '' @ showInt (depth config)
                   @ '' movetime '' @ showInt (movetime config)\<rparr>)"

section \<open>The server state\<close>

type_synonym gameId = string

text \<open>
  A child process is known by its handle. The handle of the \<open>n\<close>-th process spawned by
  \<^verbatim>\<open>initializeEngine\<close> is \<open>n\<close>, so a handle is never reused.
\<close>

type_synonym pid = nat

datatype log_level = Info | Warn | LError

datatype color = W | B

record players =
  white :: string
  black :: string

datatype game_status = Waiting | Playing | Finished | Analyzing | Terminated

text \<open>
  An engine evaluation \<^verbatim>\<open>{ type: 'cp' | 'mate', value: <integer> }\<close>, as the search
  result parser builds it from \<^verbatim>\<open>score (cp|mate) (-?\d+)\<close>.
\<close>

datatype eval_type = Cp | Mate

record engine_eval =
  evalType :: eval_type
  evalValue :: int

text \<open>
  What \<^verbatim>\<open>analyzePosition\<close> and \<^verbatim>\<open>getBestMove\<close> resolve with. \<open>bestMove = None\<close> is
  JavaScript's \<^verbatim>\<open>null\<close>. (The ponder move of \<^verbatim>\<open>getBestMove\<close> is read by no caller.)
\<close>

record analysis =
  evaluation :: engine_eval
  bestMove :: "string option"
  principalVariation :: string

text \<open>One entry of \<^verbatim>\<open>analysisResults\<close>, with the string fields of the source.\<close>

record analysis_entry =
  moveNumber :: nat
  color :: string
  move :: string
  entryFen :: string
  entryEvaluation :: engine_eval
  entryBestMove :: "string option"
  isMistake :: bool
  isBlunder :: bool
  comment :: string

text \<open>A document of the \<^verbatim>\<open>Game\<close> collection (timestamps and the user id left out).\<close>

record game_doc =
  players :: players
  humanColor :: string
  difficulty :: int
  fen :: string
  pgn :: string
  moves :: "string list"
  status :: game_status
  result :: string
  analysis :: "analysis_entry list"

text \<open>
  An entry of the in-memory map \<^verbatim>\<open>activeGames\<close>, \<^verbatim>\<open>{ chessInstance, players, difficulty }\<close>;
  \<open>'p\<close> is the type of board positions.
\<close>

record 'p active_game =
  chessInstance :: 'p
  activePlayers :: players
  activeDifficulty :: int

text \<open>The payload of a \<^verbatim>\<open>gameStateUpdate\<close> broadcast.\<close>

record state_update =
  updFen :: string
  updPgn :: string
  updMoves :: "string list"
  updStatus :: game_status
  updAiMove :: "string option"
  updResult :: string

text \<open>
  The mutable state of the server: the module variables \<^verbatim>\<open>activeGames\<close> (gameService),
  \<^verbatim>\<open>stockfishProcesses\<close> (stockfishService) and \<^verbatim>\<open>ioInstance\<close>, the \<^verbatim>\<open>Game\<close>
  collection, and the effects on the outside world: \<open>spawned ! p\<close> is the game that process
  \<open>p\<close> was spawned for, \<open>killed\<close> lists the processes that were sent \<^verbatim>\<open>kill()\<close>,
  \<open>stdinLines\<close> the lines written to a process, \<open>emitted\<close> the broadcasts and \<open>logs\<close>
  the lines passed to \<^verbatim>\<open>logger.info\<close>, \<^verbatim>\<open>logger.warn\<close> and \<^verbatim>\<open>logger.error\<close>
  (\<^verbatim>\<open>logger.debug\<close> lines are not recorded). The \<^verbatim>\<open>responseBuffer\<close> kept beside a
  process in \<^verbatim>\<open>stockfishProcesses\<close> is only ever appended to and never read, so an entry
  of the map is the process handle.
\<close>

record 'p server =
  activeGames :: "gameId \<rightharpoonup> 'p active_game"
  games :: "gameId \<rightharpoonup> game_doc"
  stockfishProcesses :: "gameId \<rightharpoonup> pid"
  spawned :: "gameId list"
  killed :: "pid list"
  stdinLines :: "(pid \<times> string) list"
  ioInstance :: bool
  emitted :: "(gameId \<times> state_update) list"
  logs :: "(log_level \<times> string) list"

definition initialServer :: "'p server" where
  "initialServer =
     \<lparr>activeGames = Map.empty, games = Map.empty, stockfishProcesses = Map.empty,
      spawned = [], killed = [], stdinLines = [], ioInstance = False, emitted = [],
      logs = []\<rparr>"

definition logLine :: "log_level \<Rightarrow> string \<Rightarrow> 'p server \<Rightarrow> 'p server" where
  "logLine lvl msg S = S\<lparr>logs := logs S @ [(lvl, msg)]\<rparr>"

definition stdinWrite :: "pid \<Rightarrow> string \<Rightarrow> 'p server \<Rightarrow> 'p server" where
  "stdinWrite p line S = S\<lparr>stdinLines := stdinLines S @ [(p, line)]\<rparr>"

text \<open>
  The processes spawned for game \<open>g\<close> that have not been killed: the live engine
  processes of the game.
\<close>

definition liveProcesses :: "gameId \<Rightarrow> 'p server \<Rightarrow> pid list" where
  "liveProcesses g S =
     filter (\<lambda>p. spawned S ! p = g \<and> p \<notin> set (killed S)) [0..<length (spawned S)]"

section \<open>The engine supervisor (services/stockfishService.js)\<close>

text \<open>
  \<^verbatim>\<open>String.prototype.trim\<close> and \<^verbatim>\<open>String.prototype.includes\<close>.
\<close>

definition isSpace :: "char \<Rightarrow> bool" where
  "isSpace c = (c \<in> set [CHR '' '', CHR 0x09, CHR 0x0A, CHR 0x0B, CHR 0x0C, CHR 0x0D])"

definition trim :: "string \<Rightarrow> string" where
  "trim s = rev (dropWhile isSpace (rev (dropWhile isSpace s)))"

fun strIncludes :: "string \<Rightarrow> string \<Rightarrow> bool" where
  "strIncludes [] t = (t = [])"
| "strIncludes (c # cs) t = (take (length t) (c # cs) = t \<or> strIncludes cs t)"

text \<open>
  The data listener of \<^verbatim>\<open>sendCommandAndAwaitResponse\<close>, run over the chunks that the
  process writes to its standard output before the 10 second timeout: every chunk is
  trimmed and appended to the response buffer, and the first chunk that includes the
  expected terminator resolves the promise with the buffer. \<open>None\<close>: the timeout fired.
  (What the process writes to its standard error is passed to \<^verbatim>\<open>logger.error\<close> and to
  nothing else; it is not part of the model.)
\<close>

fun dataListener :: "string \<Rightarrow> string \<Rightarrow> string list \<Rightarrow> string option" where
  "dataListener expectedResponseEnd responseBuffer [] = None"
| "dataListener expectedResponseEnd responseBuffer (chunk # chunks) =
     (let dataString = trim chunk;
          responseBuffer' = responseBuffer @ dataString @ [CHR 0x0A]
      in if strIncludes dataString expectedResponseEnd then Some responseBuffer'
         else dataListener expectedResponseEnd responseBuffer' chunks)"

definition sendCommandAndAwaitResponse ::
  "string list \<Rightarrow> pid \<Rightarrow> string \<Rightarrow> string \<Rightarrow> 'p server \<Rightarrow> (error + string) \<times> 'p server"
where
  "sendCommandAndAwaitResponse chunks engineProcess command expectedResponseEnd S =
     (let S1 = stdinWrite engineProcess command S
      in case dataListener expectedResponseEnd [] chunks of
           Some responseBuffer \<Rightarrow> (Inr responseBuffer, S1)
         | None \<Rightarrow>
             (Inl (Error (''Stockfish command timed out: '' @ command)),
              logLine LError (''Stockfish command timed out for command: '' @ command) S1))"

definition terminateEngine :: "gameId \<Rightarrow> 'p server \<Rightarrow> 'p server" where
  "terminateEngine gid S =
     (case stockfishProcesses S gid of
        None \<Rightarrow> S
      | Some engineProcess \<Rightarrow>
          logLine Info (''Stockfish engine for game '' @ gid @ '' terminated.'')
            (S\<lparr>killed := killed S @ [engineProcess],
               stockfishProcesses := (stockfishProcesses S)(gid := None)\<rparr>))"

text \<open>
  What the standard output of the spawned engine holds during the three awaited steps
  of the handshake.
\<close>

record handshake =
  uciOutput :: "string list"
  firstReadyOutput :: "string list"
  secondReadyOutput :: "string list"

text \<open>\<^verbatim>\<open>spawn(STOCKFISH_PATH)\<close> inside \<^verbatim>\<open>initializeEngine(gameId, ...)\<close>.\<close>

definition spawnEngine :: "gameId \<Rightarrow> 'p server \<Rightarrow> pid \<times> 'p server" where
  "spawnEngine gid S = (length (spawned S), S\<lparr>spawned := spawned S @ [gid]\<rparr>)"

text \<open>The body of the \<^verbatim>\<open>try\<close> block of \<^verbatim>\<open>initializeEngine\<close>, after the spawn.\<close>

definition handshakeSteps ::
  "handshake \<Rightarrow> pid \<Rightarrow> gameId \<Rightarrow> int \<Rightarrow> 'p server \<Rightarrow> (error + unit) \<times> 'p server"
where
  "handshakeSteps hs engineProcess gid level S =
     (case sendCommandAndAwaitResponse (uciOutput hs) engineProcess ''uci'' ''uciok'' S of
        (Inl e, S1) \<Rightarrow> (Inl e, S1)
      | (Inr _, S1) \<Rightarrow>
          (let S2 = logLine Info
                 (''Stockfish engine for game '' @ gid @ '' initialized (UCI OK).'') S1
           in case getStockfishOptionsForDifficulty level of
                Inl e \<Rightarrow> (Inl e, S2)
              | Inr cfg \<Rightarrow>
                  (let S3 = fold (stdinWrite engineProcess) (options cfg) S2
                   in case sendCommandAndAwaitResponse (firstReadyOutput hs) engineProcess
                             ''isready'' ''readyok'' S3 of
                        (Inl e, S4) \<Rightarrow> (Inl e, S4)
                      | (Inr _, S4) \<Rightarrow>
                          (let S5 = logLine Info
                                 (''Stockfish engine for game '' @ gid
                                    @ '' is ready after setting options.'') S4;
                               S6 = stdinWrite engineProcess ''ucinewgame'' S5
                           in case sendCommandAndAwaitResponse (secondReadyOutput hs)
                                     engineProcess ''isready'' ''readyok'' S6 of
                                (Inl e, S7) \<Rightarrow> (Inl e, S7)
                              | (Inr _, S7) \<Rightarrow>
                                  (Inr (),
                                   logLine Info
                                     (''Stockfish engine for '' @ gid
                                        @ '' is ready for a new game with difficulty ''
                                        @ showInt level @ ''.'') S7)))))"

text \<open>The \<^verbatim>\<open>catch\<close> block of \<^verbatim>\<open>initializeEngine\<close>, before it throws the new error.\<close>

definition initializeCatch :: "gameId \<Rightarrow> error \<Rightarrow> 'p server \<Rightarrow> 'p server" where
  "initializeCatch gid e S =
     (let S1 = logLine LError
            (''Error initializing Stockfish for game '' @ gid @ '': '' @ message e) S
      in case stockfishProcesses S1 gid of
           Some engineProcess \<Rightarrow>
             S1\<lparr>killed := killed S1 @ [engineProcess],
                stockfishProcesses := (stockfishProcesses S1)(gid := None)\<rparr>
         | None \<Rightarrow> S1)"

definition initializeEngine ::
  "handshake \<Rightarrow> gameId \<Rightarrow> int \<Rightarrow> 'p server \<Rightarrow> (error + unit) \<times> 'p server"
where
  "initializeEngine hs gid level S =
     (let S0 = (if stockfishProcesses S gid \<noteq> None
                then terminateEngine gid
                       (logLine Warn
                          (''Stockfish engine already exists for game '' @ gid
                             @ ''. Terminating old instance.'') S)
                else S);
          (engineProcess, S1) = spawnEngine gid S0;
          S2 = S1\<lparr>stockfishProcesses := (stockfishProcesses S1)(gid \<mapsto> engineProcess)\<rparr>
      in case handshakeSteps hs engineProcess gid level S2 of
           (Inr u, S3) \<Rightarrow> (Inr u, S3)
         | (Inl e, S3) \<Rightarrow>
             (Inl (Error ''Failed to initialize Stockfish engine.''), initializeCatch gid e S3))"

text \<open>
  \<^verbatim>\<open>getBestMove\<close>. \<open>reply\<close> is what the search-result parser extracts from the engine's
  output before the 15 second timeout: \<open>None\<close> when no \<^verbatim>\<open>bestmove\<close> line arrived.
\<close>

definition getBestMove ::
  "analysis option \<Rightarrow> gameId \<Rightarrow> string \<Rightarrow> int \<Rightarrow> 'p server \<Rightarrow> (error + analysis) \<times> 'p server"
where
  "getBestMove reply gid fenText level S =
     (case stockfishProcesses S gid of
        None \<Rightarrow> (Inl (Error (''Stockfish engine not found for game '' @ gid @ ''.'')), S)
      | Some engineProcess \<Rightarrow>
          (case getStockfishOptionsForDifficulty level of
             Inl e \<Rightarrow> (Inl e, S)
           | Inr cfg \<Rightarrow>
               (let S1 = stdinWrite engineProcess (''position fen '' @ fenText) S;
                    S2 = stdinWrite engineProcess (searchParams cfg) S1;
                    S3 = logLine Info
                           (''Stockfish for game '' @ gid @ '' searching for move for FEN: ''
                              @ fenText @ '' with params: '' @ searchParams cfg) S2
                in case reply of
                     Some found \<Rightarrow> (Inr found, S3)
                   | None \<Rightarrow>
                       (Inl (Error ''Stockfish move calculation timed out.''),
                        stdinWrite engineProcess ''stop''
                          (logLine Warn
                             (''Stockfish for game '' @ gid
                                @ '' timed out getting move for FEN: '' @ fenText) S3)))))"

text \<open>The operations on the process registry, and a run of them from the empty registry.\<close>

datatype supervisor_call = Initialize handshake gameId int | Terminate gameId

fun supervisorCall :: "supervisor_call \<Rightarrow> 'p server \<Rightarrow> 'p server" where
  "supervisorCall (Initialize hs gid level) S = snd (initializeEngine hs gid level S)"
| "supervisorCall (Terminate gid) S = terminateEngine gid S"

definition runSupervisor :: "supervisor_call list \<Rightarrow> 'p server \<Rightarrow> 'p server" where
  "runSupervisor calls S = fold supervisorCall calls S"

text \<open>
  Some step of the handshake fails: an awaited command times out, or the difficulty
  level has no entry in the table.
\<close>

definition handshakeFails :: "handshake \<Rightarrow> int \<Rightarrow> bool" where
  "handshakeFails hs level =
     (dataListener ''uciok'' [] (uciOutput hs) = None
      \<or> stockfishDifficultyLevels level = None
      \<or> dataListener ''readyok'' [] (firstReadyOutput hs) = None
      \<or> dataListener ''readyok'' [] (secondReadyOutput hs) = None)"

text \<open>The process that \<^verbatim>\<open>terminateEngine(gid)\<close> kills, if any.\<close>

definition killedOld :: "gameId \<Rightarrow> 'p server \<Rightarrow> pid list" where
  "killedOld gid S = (case stockfishProcesses S gid of None \<Rightarrow> [] | Some q \<Rightarrow> [q])"

text \<open>
  The invariant of the registry: the live processes of a game are exactly the process
  registered for it, and only spawned processes have been killed.
\<close>

definition registryInvariant :: "'p server \<Rightarrow> bool" where
  "registryInvariant S \<longleftrightarrow>
     (\<forall>g. liveProcesses g S = (case stockfishProcesses S g of None \<Rightarrow> [] | Some p \<Rightarrow> [p]))
     \<and> (\<forall>p \<in> set (killed S). p < length (spawned S))"


section \<open>The rules engine (chess.js)\<close>

text \<open>
  The rules engine is a library outside the repository, so it is a parameter: a record of
  the methods of \<^verbatim>\<open>Chess\<close> that the services call, over any type \<open>'p\<close> of positions.
  \<^verbatim>\<open>chess.move(m)\<close> either plays the move, returns \<^verbatim>\<open>null\<close> or throws, depending on
  the version of the library; the services handle all three.
\<close>

datatype 'p move_result = Moved 'p | Null | Throws string

record 'p chess =
  newChess :: 'p
  chessMove :: "'p \<Rightarrow> string \<Rightarrow> 'p move_result"
  chessTurn :: "'p \<Rightarrow> color"
  chessFen :: "'p \<Rightarrow> string"
  chessPgn :: "'p \<Rightarrow> string"
  isGameOver :: "'p \<Rightarrow> bool"
  isCheckmate :: "'p \<Rightarrow> bool"
  isDraw :: "'p \<Rightarrow> bool"

text \<open>Replaying a move list from a position: \<open>None\<close> when some move is not played.\<close>

fun replay :: "'p chess \<Rightarrow> 'p \<Rightarrow> string list \<Rightarrow> 'p option" where
  "replay C p [] = Some p"
| "replay C p (m # ms) =
     (case chessMove C p m of Moved p' \<Rightarrow> replay C p' ms | Null \<Rightarrow> None | Throws _ \<Rightarrow> None)"

section \<open>Post-game analysis (services/gameService.js, analyzeGame)\<close>

definition MATE_VALUE :: int where
  "MATE_VALUE = 10000"

definition MISTAKE_THRESHOLD :: int where
  "MISTAKE_THRESHOLD = 150"

definition BLUNDER_THRESHOLD :: int where
  "BLUNDER_THRESHOLD = 300"

text \<open>
  The helper \<^verbatim>\<open>getCpValue\<close>. Its last \<^verbatim>\<open>return 0\<close> is for a type that is neither
  \<^verbatim>\<open>'cp'\<close> nor \<^verbatim>\<open>'mate'\<close>, which \<open>eval_type\<close> excludes.
\<close>

definition getCpValue :: "engine_eval \<Rightarrow> int" where
  "getCpValue ev =
     (case evalType ev of
        Cp \<Rightarrow> evalValue ev
      | Mate \<Rightarrow>
          (let sign = sgn (evalValue ev)
           in if evalValue ev = 0 then 0 else sign * (MATE_VALUE - \<bar>evalValue ev\<bar>)))"

text \<open>The evaluation built by hand for a position in which the game is over.\<close>

definition gameOverEval :: "'p chess \<Rightarrow> 'p \<Rightarrow> engine_eval" where
  "gameOverEval C chess =
     (if isCheckmate C chess then \<lparr>evalType = Mate, evalValue = 0\<rparr>
      else \<lparr>evalType = Cp, evalValue = 0\<rparr>)"

text \<open>
  Step 5 of the loop body. \<open>cpActualResult\<close> is the post-move score seen from the mover,
  \<open>evalDiff\<close> the drop; a \<^verbatim>\<open>null\<close> best move prints as \<^verbatim>\<open>null\<close> in a template literal.
\<close>

definition cpActualResult :: "engine_eval \<Rightarrow> int" where
  "cpActualResult evalAfter =
     (if evalType evalAfter = Mate \<and> evalValue evalAfter = 0 then 10000
      else -1 * getCpValue evalAfter)"

definition evalDiff :: "engine_eval \<Rightarrow> engine_eval \<Rightarrow> int" where
  "evalDiff evalStart evalAfter = getCpValue evalStart - cpActualResult evalAfter"

definition showMove :: "string option \<Rightarrow> string" where
  "showMove m = (case m of None \<Rightarrow> ''null'' | Some t \<Rightarrow> t)"

record move_quality =
  qMistake :: bool
  qBlunder :: bool
  qComment :: string

definition moveQuality ::
  "bool \<Rightarrow> engine_eval \<Rightarrow> string option \<Rightarrow> engine_eval \<Rightarrow> move_quality"
where
  "moveQuality humanMove evalStart bestMoveStart evalAfter =
     (if humanMove then
        (if evalDiff evalStart evalAfter > BLUNDER_THRESHOLD then
           \<lparr>qMistake = False, qBlunder = True,
            qComment = ''Blunder. You lost significant advantage. Best was ''
                         @ showMove bestMoveStart @ ''.''\<rparr>
         else if evalDiff evalStart evalAfter > MISTAKE_THRESHOLD then
           \<lparr>qMistake = True, qBlunder = False,
            qComment = ''Mistake. Best move was '' @ showMove bestMoveStart @ ''.''\<rparr>
         else if evalType evalStart = Mate \<and> evalType evalAfter \<noteq> Mate then
           \<lparr>qMistake = True, qBlunder = False,
            qComment = ''Missed Mate. Best move was '' @ showMove bestMoveStart @ ''.''\<rparr>
         else \<lparr>qMistake = False, qBlunder = False, qComment = []\<rparr>)
      else \<lparr>qMistake = False, qBlunder = False, qComment = []\<rparr>)"

text \<open>\<^verbatim>\<open>isHumanMove\<close>, from the side to move before the ply.\<close>

definition isHumanMove :: "players \<Rightarrow> color \<Rightarrow> bool" where
  "isHumanMove pl turnColor =
     (let isWhiteTurn = (turnColor = W)
      in (isWhiteTurn \<and> white pl = ''Human'') \<or> (\<not> isWhiteTurn \<and> black pl = ''Human''))"

text \<open>
  The entry that the loop body pushes to \<^verbatim>\<open>analysisResults\<close> for ply \<open>i\<close>, played by
  \<open>turnColor\<close> from a position analysed as \<open>currentAnalysis\<close>, when the position after
  the move is evaluated as \<open>evalAfter\<close>: steps 2 and 5 of the loop body and the push.
\<close>

definition plyEntry ::
  "players \<Rightarrow> nat \<Rightarrow> color \<Rightarrow> string \<Rightarrow> string \<Rightarrow> analysis \<Rightarrow> engine_eval
     \<Rightarrow> analysis_entry"
where
  "plyEntry pl i turnColor moveSan fenAfterMove currentAnalysis evalAfter =
     (let bestMoveStart = bestMove currentAnalysis;
          evalStart = evaluation currentAnalysis;
          q = moveQuality (isHumanMove pl turnColor) evalStart bestMoveStart evalAfter
      in \<lparr>moveNumber = i div 2 + 1,
          color = (if turnColor = W then ''white'' else ''black''),
          move = moveSan,
          entryFen = fenAfterMove,
          entryEvaluation = evalStart,
          entryBestMove = bestMoveStart,
          isMistake = qMistake q,
          isBlunder = qBlunder q,
          comment = qComment q\<rparr>)"

text \<open>
  The \<^verbatim>\<open>for\<close> loop of \<^verbatim>\<open>analyzeGame\<close> over the moves from index \<open>i\<close> on. \<open>engine k f\<close> is
  what \<^verbatim>\<open>analyzePosition(f)\<close> does when it is called for the position after \<open>k\<close> plies:
  it resolves with an analysis or throws (the transient process it spawns is not entered
  in \<^verbatim>\<open>stockfishProcesses\<close>). The loop returns the entries and the lines it logged, or the
  error thrown out of it; a move that cannot be replayed is caught, logged and ends the
  loop (\<^verbatim>\<open>break\<close>).
\<close>

fun analysisLoop ::
  "'p chess \<Rightarrow> (nat \<Rightarrow> string \<Rightarrow> error + analysis) \<Rightarrow> players \<Rightarrow> string list \<Rightarrow> nat \<Rightarrow> 'p
     \<Rightarrow> analysis \<Rightarrow> analysis_entry list
     \<Rightarrow> error + (analysis_entry list \<times> (log_level \<times> string) list)"
where
  "analysisLoop C engine pl [] i chess currentAnalysis analysisResults =
     Inr (analysisResults, [])"
| "analysisLoop C engine pl (moveSan # rest) i chess currentAnalysis analysisResults =
     (let turnColor = chessTurn C chess
      in case chessMove C chess moveSan of
           Throws msg \<Rightarrow>
             Inr (analysisResults,
                  [(LError, ''Analysis failed at move '' @ showNat (i + 1) @ '' ('' @ moveSan
                              @ ''): '' @ msg)])
         | Null \<Rightarrow>
             Inr (analysisResults,
                  [(LError, ''Analysis failed at move '' @ showNat (i + 1) @ '' ('' @ moveSan
                              @ ''): Invalid SAN: '' @ moveSan)])
         | Moved chess' \<Rightarrow>
             (let fenAfterMove = chessFen C chess'
              in if isGameOver C chess' then
                   (let evalAfter = gameOverEval C chess'
                    in analysisLoop C engine pl rest (Suc i) chess'
                         \<lparr>evaluation = evalAfter, bestMove = None, principalVariation = []\<rparr>
                         (analysisResults @
                            [plyEntry pl i turnColor moveSan fenAfterMove currentAnalysis
                               evalAfter]))
                 else
                   (case engine (Suc i) fenAfterMove of
                      Inl e \<Rightarrow> Inl e
                    | Inr nextAnalysis \<Rightarrow>
                        analysisLoop C engine pl rest (Suc i) chess' nextAnalysis
                          (analysisResults @
                             [plyEntry pl i turnColor moveSan fenAfterMove currentAnalysis
                                (evaluation nextAnalysis)]))))"

definition analyzeGame ::
  "'p chess \<Rightarrow> (nat \<Rightarrow> string \<Rightarrow> error + analysis) \<Rightarrow> gameId \<Rightarrow> 'p server
     \<Rightarrow> (error + game_doc) \<times> 'p server"
where
  "analyzeGame C engine gid S =
     (case games S gid of
        None \<Rightarrow> (Inl (Error ''Game not found.''), S)
      | Some gameDoc \<Rightarrow>
          if status gameDoc \<noteq> Finished then
            (Inl (Error ''Game is not finished and cannot be analyzed.''), S)
          else if analysis gameDoc \<noteq> [] then
            (Inr gameDoc,
             logLine Info
               (''Game '' @ gid @ '' already analyzed. Returning existing analysis.'') S)
          else
            (let S1 = logLine Info (''Starting analysis for game '' @ gid @ ''...'') S;
                 analyzing = gameDoc\<lparr>status := Analyzing\<rparr>;
                 S2 = S1\<lparr>games := (games S1)(gid \<mapsto> analyzing)\<rparr>
             in case engine 0 (chessFen C (newChess C)) of
                  Inl e \<Rightarrow> (Inl e, S2)
                | Inr currentAnalysis \<Rightarrow>
                    (case analysisLoop C engine (players gameDoc) (moves gameDoc) 0
                            (newChess C) currentAnalysis [] of
                       Inl e \<Rightarrow> (Inl e, S2)
                     | Inr (analysisResults, logged) \<Rightarrow>
                         (let S3 = S2\<lparr>logs := logs S2 @ logged\<rparr>;
                              updated = analyzing\<lparr>analysis := analysisResults,
                                                  status := Finished\<rparr>;
                              S4 = S3\<lparr>games := (games S3)(gid \<mapsto> updated)\<rparr>
                          in (Inr updated,
                              logLine Info (''Game '' @ gid @ '' analysis complete.'') S4)))))"

section \<open>Playing a move (services/gameService.js, makeMove)\<close>

definition showColor :: "color \<Rightarrow> string" where
  "showColor c = (case c of W \<Rightarrow> ''w'' | B \<Rightarrow> ''b'')"

text \<open>What \<^verbatim>\<open>makeMove\<close> resolves with.\<close>

record move_outcome =
  outGame :: game_doc
  outAiMove :: "string option"
  outStatus :: game_status

definition gameResultOf :: "'p chess \<Rightarrow> 'p \<Rightarrow> string" where
  "gameResultOf C chess =
     (if isCheckmate C chess then (if chessTurn C chess = W then ''0-1'' else ''1-0'')
      else if isDraw C chess then ''1/2-1/2''
      else ''*'')"

text \<open>
  The block run when \<^verbatim>\<open>chessInstance.isGameOver()\<close> holds (it stands twice in the source,
  after the human's move and after the computer's): the document and the state after it.
\<close>

definition finishGame ::
  "'p chess \<Rightarrow> gameId \<Rightarrow> 'p \<Rightarrow> game_doc \<Rightarrow> 'p server \<Rightarrow> game_doc \<times> 'p server"
where
  "finishGame C gid chess gameDoc S =
     (let gameResult = gameResultOf C chess;
          gameDoc' = gameDoc\<lparr>status := Finished, result := gameResult\<rparr>;
          S1 = logLine Info (''Game '' @ gid @ '' finished. Result: '' @ gameResult) S;
          S2 = terminateEngine gid S1
      in (gameDoc', S2\<lparr>activeGames := (activeGames S2)(gid := None)\<rparr>))"

text \<open>\<^verbatim>\<open>gameDoc.save()\<close>, the broadcast and the returned object.\<close>

definition saveAndEmit ::
  "gameId \<Rightarrow> game_doc \<Rightarrow> string option \<Rightarrow> game_status \<Rightarrow> string \<Rightarrow> 'p server
     \<Rightarrow> (error + move_outcome) \<times> 'p server"
where
  "saveAndEmit gid gameDoc aiMove gameStatus gameResult S =
     (let S1 = S\<lparr>games := (games S)(gid \<mapsto> gameDoc)\<rparr>;
          S2 = (if ioInstance S1
                then S1\<lparr>emitted := emitted S1 @
                          [(gid, \<lparr>updFen = fen gameDoc, updPgn = pgn gameDoc,
                                  updMoves = moves gameDoc, updStatus = gameStatus,
                                  updAiMove = aiMove, updResult = gameResult\<rparr>)]\<rparr>
                else S1)
      in (Inr \<lparr>outGame = gameDoc, outAiMove = aiMove, outStatus = gameStatus\<rparr>, S2))"

text \<open>The position held in \<^verbatim>\<open>activeGames\<close> is a mutable object: a move updates it in place.\<close>

definition setChessInstance :: "gameId \<Rightarrow> 'p active_game \<Rightarrow> 'p \<Rightarrow> 'p server \<Rightarrow> 'p server" where
  "setChessInstance gid gameData chess S =
     S\<lparr>activeGames := (activeGames S)(gid \<mapsto> gameData\<lparr>chessInstance := chess\<rparr>)\<rparr>"

text \<open>The body of the \<^verbatim>\<open>try\<close> block of \<^verbatim>\<open>makeMove\<close>.\<close>

definition makeMoveBody ::
  "'p chess \<Rightarrow> analysis option \<Rightarrow> gameId \<Rightarrow> string \<Rightarrow> 'p active_game \<Rightarrow> game_doc \<Rightarrow> 'p server
     \<Rightarrow> (error + move_outcome) \<times> 'p server"
where
  "makeMoveBody C reply gid mv gameData gameDoc S =
     (case chessMove C (chessInstance gameData) mv of
        Throws msg \<Rightarrow> (Inl (Error msg), S)
      | Null \<Rightarrow> (Inl (Error ''Invalid move.''), S)
      | Moved c1 \<Rightarrow>
          (let S1 = setChessInstance gid gameData c1 S;
               doc1 = gameDoc\<lparr>moves := moves gameDoc @ [mv], fen := chessFen C c1,
                               pgn := chessPgn C c1\<rparr>
           in if isGameOver C c1 then
                (case finishGame C gid c1 doc1 S1 of
                   (doc2, S2) \<Rightarrow> saveAndEmit gid doc2 None Finished (gameResultOf C c1) S2)
              else if (white (activePlayers gameData) = ''Computer'' \<and> chessTurn C c1 = W)
                    \<or> (black (activePlayers gameData) = ''Computer'' \<and> chessTurn C c1 = B)
              then
                (let S2 = logLine Info (''Computer making move for game '' @ gid @ ''...'') S1
                 in case getBestMove reply gid (chessFen C c1) (activeDifficulty gameData) S2 of
                      (Inl e, S3) \<Rightarrow> (Inl e, S3)
                    | (Inr found, S3) \<Rightarrow>
                        (case bestMove found of
                           None \<Rightarrow>
                             (Inl (Error ''AI failed to make a move.''),
                              logLine LError
                                (''Stockfish failed to make a move for game '' @ gid) S3)
                         | Some computerMove \<Rightarrow>
                             if computerMove = [] then
                               (Inl (Error ''AI failed to make a move.''),
                                logLine LError
                                  (''Stockfish failed to make a move for game '' @ gid) S3)
                             else
                               (case chessMove C c1 computerMove of
                                  Throws msg \<Rightarrow> (Inl (Error msg), S3)
                                | Null \<Rightarrow>
                                    (Inl (Error ''AI generated an invalid move.''),
                                     logLine LError
                                       (''Stockfish generated an invalid move: ''
                                          @ computerMove @ '' for FEN: '' @ chessFen C c1) S3)
                                | Moved c2 \<Rightarrow>
                                    (let S4 = setChessInstance gid gameData c2 S3;
                                         doc2 = doc1\<lparr>moves := moves doc1 @ [computerMove],
                                                     fen := chessFen C c2,
                                                     pgn := chessPgn C c2\<rparr>;
                                         S5 = logLine Info
                                                (''Computer played: '' @ computerMove
                                                   @ '' for game '' @ gid) S4
                                     in if isGameOver C c2 then
                                          (case finishGame C gid c2 doc2 S5 of
                                             (doc3, S6) \<Rightarrow>
                                               saveAndEmit gid doc3 (Some computerMove) Finished
                                                 (gameResultOf C c2) S6)
                                        else
                                          saveAndEmit gid doc2 (Some computerMove) Playing
                                            ''*'' S5))))
              else saveAndEmit gid doc1 None Playing ''*'' S1))"

definition makeMove ::
  "'p chess \<Rightarrow> analysis option \<Rightarrow> gameId \<Rightarrow> string \<Rightarrow> 'p server
     \<Rightarrow> (error + move_outcome) \<times> 'p server"
where
  "makeMove C reply gid mv S =
     (case activeGames S gid of
        None \<Rightarrow> (Inl (Error ''Game not found or has ended.''), S)
      | Some gameData \<Rightarrow>
          (case games S gid of
             None \<Rightarrow> (Inl (Error ''Game is not active or has ended.''), S)
           | Some gameDoc \<Rightarrow>
               if status gameDoc \<noteq> Playing then
                 (Inl (Error ''Game is not active or has ended.''), S)
               else
                 (let humanPlayerColor =
                        (if white (activePlayers gameData) = ''Human'' then W else B)
                  in if humanPlayerColor \<noteq> chessTurn C (chessInstance gameData) then
                       (Inl (Error (''It's not the human's turn. Current turn: ''
                                      @ showColor (chessTurn C (chessInstance gameData)))),
                        S)
                     else
                       (case makeMoveBody C reply gid mv gameData gameDoc S of
                          (Inl e, S') \<Rightarrow>
                            (Inl e,
                             logLine LError
                               (''Error making move for game '' @ gid @ '': '' @ message e) S')
                        | (Inr out, S') \<Rightarrow> (Inr out, S')))))"

section \<open>A miniature instance\<close>

text \<open>
  A small rules engine and two engines, on which the definitions above can be run: a
  position is the list of the moves played, every move is legal but \<open>zz\<close> (rejected with
  \<^verbatim>\<open>null\<close>) and \<open>xx\<close> (rejected with an exception), White moves first, \<open>Qxf7#\<close>
  checkmates and \<open>draw\<close> ends the game drawn.
\<close>

definition miniChess :: "string list chess" where
  "miniChess =
     \<lparr>newChess = [],
      chessMove = (\<lambda>p m. if m = ''zz'' then Null
                          else if m = ''xx'' then Throws ''Invalid move: xx''
                          else Moved (p @ [m])),
      chessTurn = (\<lambda>p. if even (length p) then W else B),
      chessFen = (\<lambda>p. concat (map (\<lambda>m. m @ '' '') p)),
      chessPgn = (\<lambda>p. concat (map (\<lambda>m. m @ '' '') p)),
      isGameOver = (\<lambda>p. p \<noteq> [] \<and> (last p = ''Qxf7#'' \<or> last p = ''draw'')),
      isCheckmate = (\<lambda>p. p \<noteq> [] \<and> last p = ''Qxf7#''),
      isDraw = (\<lambda>p. p \<noteq> [] \<and> last p = ''draw'')\<rparr>"

definition cpAnalysis :: "int \<Rightarrow> analysis" where
  "cpAnalysis v =
     \<lparr>evaluation = \<lparr>evalType = Cp, evalValue = v\<rparr>, bestMove = Some ''e2e4'',
      principalVariation = ''e2e4 e7e5''\<rparr>"

definition mateAnalysis :: "int \<Rightarrow> analysis" where
  "mateAnalysis n =
     \<lparr>evaluation = \<lparr>evalType = Mate, evalValue = n\<rparr>, bestMove = Some ''d1h5'',
      principalVariation = ''d1h5''\<rparr>"

text \<open>An engine that answers every position with the same centipawn score.\<close>

definition cpEngine :: "int \<Rightarrow> nat \<Rightarrow> string \<Rightarrow> error + analysis" where
  "cpEngine v k f = Inr (cpAnalysis v)"

definition humanWhite :: players where
  "humanWhite = \<lparr>white = ''Human'', black = ''Computer''\<rparr>"

definition finishedGame :: "string list \<Rightarrow> game_doc" where
  "finishedGame ms =
     \<lparr>players = humanWhite, humanColor = ''white'', difficulty = 5,
      fen = chessFen miniChess ms, pgn = chessPgn miniChess ms, moves = ms,
      status = Finished, result = ''1-0'', analysis = []\<rparr>"

definition archive :: "string list \<Rightarrow> string list server" where
  "archive ms = initialServer\<lparr>games := [''g1'' \<mapsto> finishedGame ms]\<rparr>"

text \<open>A game in play, with the human as White, after the moves \<open>ms\<close>.\<close>

definition liveGame :: "string list \<Rightarrow> string list server" where
  "liveGame ms =
     initialServer
       \<lparr>activeGames := [''g1'' \<mapsto> \<lparr>chessInstance = ms, activePlayers = humanWhite,
                                      activeDifficulty = 5\<rparr>],
        games := [''g1'' \<mapsto> (finishedGame ms)\<lparr>status := Playing, result := ''*''\<rparr>]\<rparr>"

definition okHandshake :: handshake where
  "okHandshake =
     \<lparr>uciOutput = [''id name Stockfish'', ''uciok''], firstReadyOutput = [''readyok''],
      secondReadyOutput = [''readyok'']\<rparr>"

definition silentHandshake :: handshake where
  "silentHandshake =
     \<lparr>uciOutput = [''id name Stockfish''], firstReadyOutput = [], secondReadyOutput = []\<rparr>"

definition demoCalls :: "supervisor_call list" where
  "demoCalls =
     [Initialize okHandshake ''g1'' 5, Initialize okHandshake ''g2'' 4, Terminate ''g2'']"

section \<open>Properties of the engine supervisor\<close>

subsection \<open>What logging, writing and the handshake leave unchanged\<close>

lemma logLine_frame [simp]:
  "stockfishProcesses (logLine lvl msg S) = stockfishProcesses S"
  "spawned (logLine lvl msg S) = spawned S"
  "killed (logLine lvl msg S) = killed S"
  "games (logLine lvl msg S) = games S"
  "activeGames (logLine lvl msg S) = activeGames S"
  by (simp_all add: logLine_def)

lemma stdinWrite_frame [simp]:
  "stockfishProcesses (stdinWrite p l S) = stockfishProcesses S"
  "spawned (stdinWrite p l S) = spawned S"
  "killed (stdinWrite p l S) = killed S"
  "games (stdinWrite p l S) = games S"
  "activeGames (stdinWrite p l S) = activeGames S"
  by (simp_all add: stdinWrite_def)

lemma fold_stdinWrite_frame [simp]:
  "stockfishProcesses (fold (stdinWrite p) ls S) = stockfishProcesses S"
  "spawned (fold (stdinWrite p) ls S) = spawned S"
  "killed (fold (stdinWrite p) ls S) = killed S"
  by (induction ls arbitrary: S) simp_all

lemma liveProcesses_cong:
  "spawned S' = spawned S \<Longrightarrow> killed S' = killed S \<Longrightarrow> liveProcesses g S' = liveProcesses g S"
  by (simp add: liveProcesses_def)

lemma sendCommand_frame:
  assumes "sendCommandAndAwaitResponse chunks p cmd e S = (r, S')"
  shows "stockfishProcesses S' = stockfishProcesses S \<and> spawned S' = spawned S \<and> killed S' = killed S"
  using assms by (auto simp: sendCommandAndAwaitResponse_def Let_def split: option.splits)

lemma sendCommand_result:
  "fst (sendCommandAndAwaitResponse chunks p cmd e S) =
     (case dataListener e [] chunks of
        Some b \<Rightarrow> Inr b
      | None \<Rightarrow> Inl (Error (''Stockfish command timed out: '' @ cmd)))"
  by (simp add: sendCommandAndAwaitResponse_def Let_def split: option.splits)

lemma handshakeSteps_frame:
  assumes "handshakeSteps hs p gid level S = (r, S')"
  shows "stockfishProcesses S' = stockfishProcesses S \<and> spawned S' = spawned S \<and> killed S' = killed S"
  using assms
  by (auto simp: handshakeSteps_def Let_def sendCommandAndAwaitResponse_def
        split: option.splits sum.splits prod.splits)

lemma handshakeSteps_fails:
  "isl (fst (handshakeSteps hs p gid level S)) \<longleftrightarrow> handshakeFails hs level"
  by (auto simp: handshakeSteps_def Let_def sendCommandAndAwaitResponse_def handshakeFails_def
        getStockfishOptionsForDifficulty_def
        split: option.splits sum.splits prod.splits)

subsection \<open>The invariant of the registry\<close>

lemma registryInvariant_cong:
  "stockfishProcesses S' = stockfishProcesses S \<Longrightarrow> spawned S' = spawned S \<Longrightarrow>
   killed S' = killed S \<Longrightarrow> registryInvariant S' = registryInvariant S"
  by (simp add: registryInvariant_def liveProcesses_def)

lemma registered_is_live:
  assumes "registryInvariant S" "stockfishProcesses S g = Some p"
  shows "p < length (spawned S) \<and> spawned S ! p = g \<and> p \<notin> set (killed S)"
proof -
  from assms have "liveProcesses g S = [p]" by (simp add: registryInvariant_def)
  then have "p \<in> set (liveProcesses g S)" by simp
  then show ?thesis by (simp add: liveProcesses_def)
qed

text \<open>Killing the process registered for a game and deleting its entry.\<close>

lemma liveProcesses_kill:
  assumes "killed S' = killed S @ [p]" "spawned S' = spawned S"
  shows "liveProcesses g S' = filter (\<lambda>q. q \<noteq> p) (liveProcesses g S)"
  using assms by (auto simp: liveProcesses_def intro: filter_cong)

lemma registryInvariant_kill:
  assumes inv: "registryInvariant S" and reg: "stockfishProcesses S gid = Some p"
    and k: "killed S' = killed S @ [p]" and s: "spawned S' = spawned S"
    and r: "stockfishProcesses S' = (stockfishProcesses S)(gid := None)"
  shows "registryInvariant S'"
proof -
  note live = registered_is_live [OF inv reg]
  have "liveProcesses g S' = (case stockfishProcesses S' g of None \<Rightarrow> [] | Some q \<Rightarrow> [q])" for g
  proof (cases "g = gid")
    case True
    with inv reg show ?thesis
      by (simp add: liveProcesses_kill [OF k s] r registryInvariant_def)
  next
    case False
    show ?thesis
    proof (cases "stockfishProcesses S g")
      case None
      with inv False show ?thesis
        by (simp add: liveProcesses_kill [OF k s] r registryInvariant_def)
    next
      case (Some q)
      from registered_is_live [OF inv Some] live False have "q \<noteq> p" by auto
      with inv Some False show ?thesis
        by (simp add: liveProcesses_kill [OF k s] r registryInvariant_def)
    qed
  qed
  moreover have "\<forall>q \<in> set (killed S'). q < length (spawned S')"
    using inv live by (auto simp: k s registryInvariant_def)
  ultimately show ?thesis by (simp add: registryInvariant_def)
qed

lemma terminateEngine_invariant:
  "registryInvariant S \<Longrightarrow> registryInvariant (terminateEngine gid S)"
proof (cases "stockfishProcesses S gid")
  case None
  assume "registryInvariant S"
  with None show ?thesis by (simp add: terminateEngine_def)
next
  case (Some p)
  assume "registryInvariant S"
  from registryInvariant_kill [OF this Some, of "terminateEngine gid S"] Some
  show ?thesis by (simp add: terminateEngine_def)
qed

lemma terminateEngine_removes [simp]:
  "stockfishProcesses (terminateEngine gid S) gid = None"
  by (simp add: terminateEngine_def split: option.splits)

lemma initializeCatch_invariant:
  "registryInvariant S \<Longrightarrow> registryInvariant (initializeCatch gid e S)"
proof (cases "stockfishProcesses S gid")
  case None
  assume "registryInvariant S"
  with None show ?thesis
    by (simp add: initializeCatch_def Let_def registryInvariant_cong [of "logLine _ _ S" S])
next
  case (Some p)
  assume "registryInvariant S"
  from registryInvariant_kill [OF this Some, of "initializeCatch gid e S"] Some
  show ?thesis by (simp add: initializeCatch_def Let_def)
qed

text \<open>Spawning a process for a game that has no entry, and registering it.\<close>

lemma liveProcesses_spawn:
  assumes "spawned S' = spawned S @ [gid]" "killed S' = killed S"
    "\<forall>q \<in> set (killed S). q < length (spawned S)"
  shows "liveProcesses g S' = liveProcesses g S @ (if g = gid then [length (spawned S)] else [])"
proof -
  have "filter (\<lambda>p. (spawned S @ [gid]) ! p = g \<and> p \<notin> set (killed S)) [0..<length (spawned S)]
        = filter (\<lambda>p. spawned S ! p = g \<and> p \<notin> set (killed S)) [0..<length (spawned S)]"
    by (rule filter_cong) (auto simp: nth_append)
  with assms show ?thesis by (auto simp: liveProcesses_def)
qed

lemma registryInvariant_spawn:
  assumes inv: "registryInvariant S" and reg: "stockfishProcesses S gid = None"
    and s: "spawned S' = spawned S @ [gid]" and k: "killed S' = killed S"
    and r: "stockfishProcesses S' = (stockfishProcesses S)(gid \<mapsto> length (spawned S))"
  shows "registryInvariant S'"
proof -
  from inv have fresh: "\<forall>q \<in> set (killed S). q < length (spawned S)"
    by (simp add: registryInvariant_def)
  have "liveProcesses g S' = (case stockfishProcesses S' g of None \<Rightarrow> [] | Some q \<Rightarrow> [q])" for g
    using inv reg by (simp add: liveProcesses_spawn [OF s k fresh] r registryInvariant_def)
  moreover have "\<forall>q \<in> set (killed S'). q < length (spawned S')"
    using fresh by (auto simp: k s)
  ultimately show ?thesis by (simp add: registryInvariant_def)
qed

subsection \<open>The effect of starting and terminating an engine\<close>

text \<open>
  What \<^verbatim>\<open>initializeEngine\<close> does to the registry and to the processes, by the outcome of
  the handshake.
\<close>

lemma initializeEngine_effect:
  assumes "initializeEngine hs gid level S = (r, S')"
  shows "spawned S' = spawned S @ [gid] \<and>
         (if handshakeFails hs level
          then r = Inl (Error ''Failed to initialize Stockfish engine.'')
               \<and> stockfishProcesses S' = (stockfishProcesses S)(gid := None)
               \<and> killed S' = killed S @ killedOld gid S @ [length (spawned S)]
          else r = Inr ()
               \<and> stockfishProcesses S' = (stockfishProcesses S)(gid \<mapsto> length (spawned S))
               \<and> killed S' = killed S @ killedOld gid S)"
proof -
  define S0 where "S0 = (if stockfishProcesses S gid \<noteq> None
                then terminateEngine gid
                       (logLine Warn
                          (''Stockfish engine already exists for game '' @ gid
                             @ ''. Terminating old instance.'') S)
                else S)"
  define S2 where "S2 = S0\<lparr>spawned := spawned S0 @ [gid],
     stockfishProcesses := (stockfishProcesses S0)(gid \<mapsto> length (spawned S0))\<rparr>"
  have S0: "spawned S0 = spawned S" "killed S0 = killed S @ killedOld gid S"
    "stockfishProcesses S0 = (stockfishProcesses S)(gid := None)"
    by (auto simp: S0_def terminateEngine_def killedOld_def split: option.splits)
  obtain r3 S3 where hs: "handshakeSteps hs (length (spawned S0)) gid level S2 = (r3, S3)"
    by (cases "handshakeSteps hs (length (spawned S0)) gid level S2")
  from handshakeSteps_frame [OF hs]
  have S3: "stockfishProcesses S3 = (stockfishProcesses S)(gid \<mapsto> length (spawned S))"
    "spawned S3 = spawned S @ [gid]" "killed S3 = killed S @ killedOld gid S"
    by (simp_all add: S2_def S0)
  from handshakeSteps_fails [of hs "length (spawned S0)" gid level S2] hs
  have fails: "isl r3 \<longleftrightarrow> handshakeFails hs level" by simp
  have "initializeEngine hs gid level S =
      (case handshakeSteps hs (length (spawned S0)) gid level S2 of
         (Inr u, S3) \<Rightarrow> (Inr u, S3)
       | (Inl e, S3) \<Rightarrow>
           (Inl (Error ''Failed to initialize Stockfish engine.''), initializeCatch gid e S3))"
    by (simp add: initializeEngine_def spawnEngine_def Let_def S0_def S2_def)
  with assms hs have res: "(r, S') = (case r3 of Inr u \<Rightarrow> (Inr u, S3)
      | Inl e \<Rightarrow> (Inl (Error ''Failed to initialize Stockfish engine.''), initializeCatch gid e S3))"
    by (simp split: sum.splits)
  show ?thesis
  proof (cases r3)
    case (Inl e)
    with res fails S3 show ?thesis
      by (auto simp: initializeCatch_def Let_def)
  next
    case (Inr u)
    with res fails S3 show ?thesis by auto
  qed
qed

lemma initializeEngine_invariant:
  assumes inv: "registryInvariant S"
  shows "registryInvariant (snd (initializeEngine hs gid level S))"
proof -
  obtain r S' where run: "initializeEngine hs gid level S = (r, S')"
    by (cases "initializeEngine hs gid level S")
  note eff = initializeEngine_effect [OF run]
  define T where "T = terminateEngine gid S"
  have T1: "registryInvariant T"
    using inv by (simp add: T_def terminateEngine_invariant)
  have T: "stockfishProcesses T gid = None"
    "spawned T = spawned S" "killed T = killed S @ killedOld gid S"
    "stockfishProcesses T = (stockfishProcesses S)(gid := None)"
    by (auto simp: T_def terminateEngine_def killedOld_def split: option.splits)
  define U where "U = T\<lparr>spawned := spawned T @ [gid],
     stockfishProcesses := (stockfishProcesses T)(gid \<mapsto> length (spawned T))\<rparr>"
  have U: "registryInvariant U"
    by (rule registryInvariant_spawn [OF T1 T(1)]) (simp_all add: U_def)
  show ?thesis
  proof (cases "handshakeFails hs level")
    case False
    with eff have "stockfishProcesses S' = stockfishProcesses U" "spawned S' = spawned U"
      "killed S' = killed U"
      by (simp_all add: U_def T)
    from registryInvariant_cong [OF this] U run show ?thesis by simp
  next
    case True
    have UU: "stockfishProcesses U gid = Some (length (spawned S))" by (simp add: U_def T)
    from True eff have "killed S' = killed U @ [length (spawned S)]" "spawned S' = spawned U"
      "stockfishProcesses S' = (stockfishProcesses U)(gid := None)"
      by (simp_all add: U_def T)
    from registryInvariant_kill [OF U UU this] run show ?thesis by simp
  qed
qed

lemma initialServer_invariant: "registryInvariant initialServer"
  by (simp add: registryInvariant_def initialServer_def liveProcesses_def)

lemma supervisorCall_invariant:
  "registryInvariant S \<Longrightarrow> registryInvariant (supervisorCall c S)"
  by (cases c) (simp_all add: initializeEngine_invariant terminateEngine_invariant)

lemma runSupervisor_invariant:
  "registryInvariant S \<Longrightarrow> registryInvariant (runSupervisor calls S)"
  unfolding runSupervisor_def
  by (induction calls arbitrary: S) (simp_all add: supervisorCall_invariant)

subsection \<open>The difficulty lookup and the handshake\<close>

lemma stockfishDifficultyLevels_defined:
  "stockfishDifficultyLevels level \<noteq> None \<longleftrightarrow> 1 \<le> level \<and> level \<le> 10"
  by (simp add: stockfishDifficultyLevels_def difficultyTable_def) arith

lemma dataListener_None:
  "dataListener e buf chunks = None \<longleftrightarrow> (\<forall>c \<in> set chunks. \<not> strIncludes (trim c) e)"
  by (induction chunks arbitrary: buf) (simp_all add: Let_def)

lemma okHandshake_succeeds: "1 \<le> l \<Longrightarrow> l \<le> 10 \<Longrightarrow> \<not> handshakeFails okHandshake l"
  using stockfishDifficultyLevels_defined [of l]
  by (auto simp add: handshakeFails_def okHandshake_def Let_def trim_def isSpace_def)

lemma silentHandshake_fails: "handshakeFails silentHandshake l"
  by (simp add: handshakeFails_def silentHandshake_def Let_def trim_def isSpace_def)

lemma initializeEngine_succeeds:
  assumes "\<not> handshakeFails hs level"
  shows "fst (initializeEngine hs gid level S) = Inr ()"
    and "spawned (snd (initializeEngine hs gid level S)) = spawned S @ [gid]"
    and "stockfishProcesses (snd (initializeEngine hs gid level S))
           = (stockfishProcesses S)(gid \<mapsto> length (spawned S))"
    and "killed (snd (initializeEngine hs gid level S)) = killed S @ killedOld gid S"
  using assms initializeEngine_effect [of hs gid level S "fst (initializeEngine hs gid level S)"
      "snd (initializeEngine hs gid level S)"]
  by simp_all

lemma initializeEngine_fails:
  assumes "handshakeFails hs level"
  shows "fst (initializeEngine hs gid level S) = Inl (Error ''Failed to initialize Stockfish engine.'')"
    and "spawned (snd (initializeEngine hs gid level S)) = spawned S @ [gid]"
    and "stockfishProcesses (snd (initializeEngine hs gid level S))
           = (stockfishProcesses S)(gid := None)"
    and "killed (snd (initializeEngine hs gid level S))
           = killed S @ killedOld gid S @ [length (spawned S)]"
  using assms initializeEngine_effect [of hs gid level S "fst (initializeEngine hs gid level S)"
      "snd (initializeEngine hs gid level S)"]
  by simp_all

lemma terminateEngine_effect:
  "spawned (terminateEngine gid S) = spawned S"
  "stockfishProcesses (terminateEngine gid S) = (stockfishProcesses S)(gid := None)"
  "killed (terminateEngine gid S) = killed S @ killedOld gid S"
  by (auto simp: terminateEngine_def killedOld_def split: option.splits)

lemma handshakeFails_no_uciok:
  "\<forall>c \<in> set (uciOutput hs). \<not> strIncludes (trim c) ''uciok'' \<Longrightarrow> handshakeFails hs level"
  by (simp add: handshakeFails_def dataListener_None)

lemma handshakeFails_invalid_level:
  "\<not> (1 \<le> level \<and> level \<le> 10) \<Longrightarrow> handshakeFails hs level"
  using stockfishDifficultyLevels_defined [of level] by (auto simp: handshakeFails_def)

lemma killed_not_live: "p \<in> set (killed S) \<Longrightarrow> p \<notin> set (liveProcesses g S)"
  by (simp add: liveProcesses_def)

text \<open>Printing numbers.\<close>

lemma showNat_digit: "n < 10 \<Longrightarrow> showNat n = [''0123456789'' ! n]"
  by (simp add: showNat.simps)

lemma showNat_more:
  "10 \<le> n \<Longrightarrow> showNat n = showNat (n div 10) @ [''0123456789'' ! (n mod 10)]"
  by (simp add: showNat.simps [of n])

subsection \<open>The claims about the supervisor\<close>

text \<open>
  Claim C9, as the code has it. In every state reached from the empty registry by calls
  of \<^verbatim>\<open>initializeEngine\<close> (whatever the handshakes do) and \<^verbatim>\<open>terminateEngine\<close>, the live
  processes of a game are exactly the process registered for it, so there is at most one.
  Two successive starts for the same game leave at most one live process: exactly the
  process of the second start, registered for the game, when the handshake of the second
  start succeeds, and none, with no entry for the game, when it fails. In both cases the
  process of the first start and any older one have been killed. \<^verbatim>\<open>terminateEngine\<close>
  removes the entry of its game and leaves the game no live process.
\<close>

theorem registry_one_live_process:
  "let S = runSupervisor calls initialServer;
       S1 = snd (initializeEngine h1 g l1 S);
       S2 = snd (initializeEngine h2 g l2 S1)
   in liveProcesses g S = (case stockfishProcesses S g of None \<Rightarrow> [] | Some p \<Rightarrow> [p])
      \<and> length (liveProcesses g S) \<le> 1
      \<and> length (liveProcesses g S2) \<le> 1
      \<and> (\<not> handshakeFails h2 l2 \<longrightarrow>
            stockfishProcesses S2 g = Some (Suc (length (spawned S)))
            \<and> liveProcesses g S2 = [Suc (length (spawned S))])
      \<and> (handshakeFails h2 l2 \<longrightarrow>
            stockfishProcesses S2 g = None \<and> liveProcesses g S2 = [])
      \<and> length (spawned S) \<in> set (killed S2)
      \<and> set (liveProcesses g S) \<subseteq> set (killed S2)
      \<and> stockfishProcesses (terminateEngine g S) g = None
      \<and> liveProcesses g (terminateEngine g S) = []"
proof -
  define S :: "'a server" where "S = runSupervisor calls initialServer"
  define S1 where "S1 = snd (initializeEngine h1 g l1 S)"
  define S2 where "S2 = snd (initializeEngine h2 g l2 S1)"
  have inv: "registryInvariant S"
    by (simp add: S_def runSupervisor_invariant initialServer_invariant)
  then have inv1: "registryInvariant S1" and invT: "registryInvariant (terminateEngine g S)"
    by (simp_all add: S1_def initializeEngine_invariant terminateEngine_invariant)
  then have inv2: "registryInvariant S2"
    by (simp add: S2_def initializeEngine_invariant)
  have live: "liveProcesses g T = (case stockfishProcesses T g of None \<Rightarrow> [] | Some p \<Rightarrow> [p])"
    if "registryInvariant T" for T :: "'a server"
    using that by (simp add: registryInvariant_def)
  have e1: "initializeEngine h1 g l1 S = (fst (initializeEngine h1 g l1 S), S1)"
    and e2: "initializeEngine h2 g l2 S1 = (fst (initializeEngine h2 g l2 S1), S2)"
    by (simp_all add: S1_def S2_def)
  note eff1 = initializeEngine_effect [OF e1] and eff2 = initializeEngine_effect [OF e2]
  have a: "length (liveProcesses g S) \<le> 1" "length (liveProcesses g S2) \<le> 1"
    by (simp_all add: live [OF inv] live [OF inv2] split: option.splits)
  have b: "stockfishProcesses S2 g = Some (Suc (length (spawned S)))
           \<and> liveProcesses g S2 = [Suc (length (spawned S))]" if "\<not> handshakeFails h2 l2"
    using that eff1 eff2 by (simp add: live [OF inv2])
  have b': "stockfishProcesses S2 g = None \<and> liveProcesses g S2 = []"
    if "handshakeFails h2 l2"
    using that eff1 eff2 by (simp add: live [OF inv2])
  have c: "length (spawned S) \<in> set (killed S2)"
    using eff1 eff2 by (cases "handshakeFails h1 l1"; cases "handshakeFails h2 l2")
      (simp_all add: killedOld_def)
  have d: "set (liveProcesses g S) \<subseteq> set (killed S2)"
    using eff1 eff2 by (cases "handshakeFails h1 l1"; cases "handshakeFails h2 l2")
      (auto simp: killedOld_def live [OF inv] split: option.splits)
  have e: "liveProcesses g (terminateEngine g S) = []"
    by (simp add: live [OF invT])
  from a b b' c d e live [OF inv] show ?thesis
    by (simp add: Let_def S_def [symmetric] S1_def [symmetric] S2_def [symmetric])
qed

text \<open>
  The theorem on a run: two games are started and one is terminated, then game \<open>g1\<close>
  is started twice more. When both starts succeed, processes 0 and 2 of \<open>g1\<close> are killed
  and process 3 lives; when the second start fails, process 3 is killed too and \<open>g1\<close>
  has no live process.
\<close>

theorem registry_one_live_process_witness:
  "\<not> handshakeFails okHandshake 8
   \<and> handshakeFails silentHandshake 8
   \<and> liveProcesses ''g1'' (runSupervisor demoCalls (initialServer :: unit server)) = [0]
   \<and> liveProcesses ''g1'' (snd (initializeEngine okHandshake ''g1'' 8
           (snd (initializeEngine okHandshake ''g1'' 3
              (runSupervisor demoCalls (initialServer :: unit server)))))) = [3]
   \<and> killed (snd (initializeEngine okHandshake ''g1'' 8
           (snd (initializeEngine okHandshake ''g1'' 3
              (runSupervisor demoCalls (initialServer :: unit server)))))) = [1, 0, 2]
   \<and> liveProcesses ''g1'' (snd (initializeEngine silentHandshake ''g1'' 8
           (snd (initializeEngine okHandshake ''g1'' 3
              (runSupervisor demoCalls (initialServer :: unit server)))))) = []
   \<and> killed (snd (initializeEngine silentHandshake ''g1'' 8
           (snd (initializeEngine okHandshake ''g1'' 3
              (runSupervisor demoCalls (initialServer :: unit server)))))) = [1, 0, 2, 3]
   \<and> stockfishProcesses (terminateEngine ''g1''
         (runSupervisor demoCalls (initialServer :: unit server))) ''g1'' = None"
  using registry_one_live_process [where ?'a = unit and calls = demoCalls and g = "''g1''"
      and ?h1.0 = okHandshake and ?l1.0 = 3 and ?h2.0 = okHandshake and ?l2.0 = 8]
    registry_one_live_process [where ?'a = unit and calls = demoCalls and g = "''g1''"
      and ?h1.0 = okHandshake and ?l1.0 = 3 and ?h2.0 = silentHandshake and ?l2.0 = 8]
  by (simp add: Let_def demoCalls_def runSupervisor_def okHandshake_succeeds
      silentHandshake_fails initializeEngine_succeeds initializeEngine_fails
      terminateEngine_effect killedOld_def initialServer_def liveProcesses_def)

text \<open>
  Claim C9 as stated fails: a start that succeeds followed by a start for the same game
  whose handshake fails leaves the game no live process, not one.
\<close>

theorem second_start_failure_counterexample:
  "fst (initializeEngine okHandshake ''g1'' 5 (initialServer :: unit server)) = Inr ()
   \<and> liveProcesses ''g1'' (snd (initializeEngine okHandshake ''g1'' 5
         (initialServer :: unit server))) = [0]
   \<and> fst (initializeEngine silentHandshake ''g1'' 5
         (snd (initializeEngine okHandshake ''g1'' 5 (initialServer :: unit server))))
       = Inl (Error ''Failed to initialize Stockfish engine.'')
   \<and> liveProcesses ''g1'' (snd (initializeEngine silentHandshake ''g1'' 5
         (snd (initializeEngine okHandshake ''g1'' 5 (initialServer :: unit server))))) = []
   \<and> killed (snd (initializeEngine silentHandshake ''g1'' 5
         (snd (initializeEngine okHandshake ''g1'' 5 (initialServer :: unit server))))) = [0, 1]"
  by (simp add: okHandshake_succeeds silentHandshake_fails initializeEngine_succeeds
      initializeEngine_fails killedOld_def initialServer_def liveProcesses_def)

text \<open>
  Claim C8. When a step of the handshake fails (the engine never answers \<^verbatim>\<open>uciok\<close>, say:
  lemma \<open>handshakeFails_no_uciok\<close>), \<^verbatim>\<open>initializeEngine\<close> throws the fixed error
  \<^verbatim>\<open>Failed to initialize Stockfish engine.\<close>, which holds nothing of what the engine wrote
  or of the inner error; the process it spawned has been killed and is not live, and the
  registry has no entry for the game.
\<close>

theorem initializeEngine_failure_cleanup:
  assumes "handshakeFails hs level"
  shows "fst (initializeEngine hs gid level S)
           = Inl (Error ''Failed to initialize Stockfish engine.'')
         \<and> spawned (snd (initializeEngine hs gid level S)) = spawned S @ [gid]
         \<and> length (spawned S) \<in> set (killed (snd (initializeEngine hs gid level S)))
         \<and> length (spawned S) \<notin> set (liveProcesses gid (snd (initializeEngine hs gid level S)))
         \<and> stockfishProcesses (snd (initializeEngine hs gid level S)) gid = None"
proof -
  note f = initializeEngine_fails [OF assms, of gid S]
  have "length (spawned S) \<in> set (killed (snd (initializeEngine hs gid level S)))"
    by (simp add: f)
  with killed_not_live [OF this] f show ?thesis by simp
qed

text \<open>The theorem on an engine that prints its name and never \<^verbatim>\<open>uciok\<close>.\<close>

theorem initializeEngine_failure_cleanup_witness:
  "handshakeFails silentHandshake 5
   \<and> fst (initializeEngine silentHandshake ''g1'' 5 (initialServer :: unit server))
       = Inl (Error ''Failed to initialize Stockfish engine.'')
   \<and> spawned (snd (initializeEngine silentHandshake ''g1'' 5 (initialServer :: unit server)))
       = [''g1'']
   \<and> killed (snd (initializeEngine silentHandshake ''g1'' 5 (initialServer :: unit server)))
       = [0]
   \<and> liveProcesses ''g1''
         (snd (initializeEngine silentHandshake ''g1'' 5 (initialServer :: unit server))) = []
   \<and> stockfishProcesses
         (snd (initializeEngine silentHandshake ''g1'' 5 (initialServer :: unit server))) ''g1''
       = None"
  using initializeEngine_failure_cleanup [OF silentHandshake_fails [of 5],
      of "''g1''" "initialServer :: unit server"]
  by (simp add: silentHandshake_fails initializeEngine_fails killedOld_def initialServer_def
      liveProcesses_def)

text \<open>
  Claim C6, as the code has it. For every level from 1 to 10 the lookup returns a
  configuration of four option lines, none of them empty, and a search command that is
  not empty (the lookup is a function of the level). For a level outside 1 to 10 the
  lookup throws its validation error. \<^verbatim>\<open>initializeEngine\<close> looks the level up only after
  it has spawned the process and awaited \<^verbatim>\<open>uciok\<close>: called with such a level it spawns
  a process, kills it, removes the entry of the game and throws the general
  initialization error.
\<close>

theorem difficulty_configuration:
  "(1 \<le> level \<and> level \<le> 10 \<longrightarrow>
      (case getStockfishOptionsForDifficulty level of
         Inl e \<Rightarrow> False
       | Inr cfg \<Rightarrow>
           length (options cfg) = 4 \<and> [] \<notin> set (options cfg) \<and> searchParams cfg \<noteq> []))
   \<and> (\<not> (1 \<le> level \<and> level \<le> 10) \<longrightarrow>
        getStockfishOptionsForDifficulty level
          = Inl (Error (''Invalid difficulty level: '' @ showInt level
                          @ ''. Must be between 1 and 10.''))
        \<and> fst (initializeEngine hs gid level S)
            = Inl (Error ''Failed to initialize Stockfish engine.'')
        \<and> spawned (snd (initializeEngine hs gid level S)) = spawned S @ [gid]
        \<and> length (spawned S) \<in> set (killed (snd (initializeEngine hs gid level S)))
        \<and> stockfishProcesses (snd (initializeEngine hs gid level S)) gid = None)"
proof (intro conjI impI)
  assume "1 \<le> level \<and> level \<le> 10"
  with stockfishDifficultyLevels_defined [of level]
  obtain config where "stockfishDifficultyLevels level = Some config" by auto
  then show "case getStockfishOptionsForDifficulty level of
         Inl e \<Rightarrow> False
       | Inr cfg \<Rightarrow>
           length (options cfg) = 4 \<and> [] \<notin> set (options cfg) \<and> searchParams cfg \<noteq> []"
    by (simp add: getStockfishOptionsForDifficulty_def)
next
  assume out: "\<not> (1 \<le> level \<and> level \<le> 10)"
  with stockfishDifficultyLevels_defined [of level]
  show "getStockfishOptionsForDifficulty level
          = Inl (Error (''Invalid difficulty level: '' @ showInt level
                          @ ''. Must be between 1 and 10.''))"
    by (simp add: getStockfishOptionsForDifficulty_def)
  note f = initializeEngine_fails [OF handshakeFails_invalid_level [OF out], of hs gid S]
  show "fst (initializeEngine hs gid level S)
            = Inl (Error ''Failed to initialize Stockfish engine.'')"
    "spawned (snd (initializeEngine hs gid level S)) = spawned S @ [gid]"
    "length (spawned S) \<in> set (killed (snd (initializeEngine hs gid level S)))"
    "stockfishProcesses (snd (initializeEngine hs gid level S)) gid = None"
    by (simp_all add: f)
qed

text \<open>The theorem at levels 5 and 11.\<close>

theorem difficulty_configuration_witness:
  "getStockfishOptionsForDifficulty 5
     = Inr \<lparr>options = [''setoption name Skill Level value 8'',
                        ''setoption name UCI_LimitStrength value true'',
                        ''setoption name UCI_Elo value 1600'',
                        ''setoption name Contempt value 0''],
            searchParams = ''go depth 5 movetime 250''\<rparr>
   \<and> getStockfishOptionsForDifficulty 11
       = Inl (Error ''Invalid difficulty level: 11. Must be between 1 and 10.'')
   \<and> fst (initializeEngine okHandshake ''g1'' 11 (initialServer :: unit server))
       = Inl (Error ''Failed to initialize Stockfish engine.'')
   \<and> killed (snd (initializeEngine okHandshake ''g1'' 11 (initialServer :: unit server))) = [0]"
  using difficulty_configuration [of 5] 
    difficulty_configuration [of 11 okHandshake "''g1''" "initialServer :: unit server"]
  by (simp add: getStockfishOptionsForDifficulty_def stockfishDifficultyLevels_def
      difficultyTable_def showInt_def showNat_digit showNat_more initializeEngine_fails
      handshakeFails_invalid_level killedOld_def initialServer_def)

text \<open>
  Claim C6 as stated fails: engine startup with level 11, or with level 0, does spawn an
  engine process.
\<close>

theorem invalid_level_spawns_counterexample:
  "spawned (snd (initializeEngine okHandshake ''g1'' 11 (initialServer :: unit server)))
     = [''g1'']
   \<and> spawned (snd (initializeEngine okHandshake ''g1'' 0 (initialServer :: unit server)))
     = [''g1'']"
  by (simp add: initializeEngine_fails handshakeFails_invalid_level initialServer_def)

section \<open>Properties of the analysis and of playing a move\<close>

subsection \<open>Auxiliary facts\<close>

lemma getCpValue_Cp [simp]: "getCpValue \<lparr>evalType = Cp, evalValue = c\<rparr> = c"
  by (simp add: getCpValue_def)

lemma getCpValue_Mate [simp]:
  "getCpValue \<lparr>evalType = Mate, evalValue = n\<rparr> = sgn n * (10000 - \<bar>n\<bar>)"
  by (simp add: getCpValue_def MATE_VALUE_def Let_def)

lemma plyEntry_flags:
  "isBlunder (plyEntry pl i t m f cur ea)
     = qBlunder (moveQuality (isHumanMove pl t) (evaluation cur) (bestMove cur) ea)"
  "isMistake (plyEntry pl i t m f cur ea)
     = qMistake (moveQuality (isHumanMove pl t) (evaluation cur) (bestMove cur) ea)"
  "comment (plyEntry pl i t m f cur ea)
     = qComment (moveQuality (isHumanMove pl t) (evaluation cur) (bestMove cur) ea)"
  "entryEvaluation (plyEntry pl i t m f cur ea) = evaluation cur"
  "entryBestMove (plyEntry pl i t m f cur ea) = bestMove cur"
  "move (plyEntry pl i t m f cur ea) = m"
  by (simp_all add: plyEntry_def Let_def)

lemma moveQuality_human:
  "qBlunder (moveQuality True es b ea) \<longleftrightarrow> evalDiff es ea > 300"
  "qMistake (moveQuality True es b ea) \<longleftrightarrow>
     (150 < evalDiff es ea \<and> evalDiff es ea \<le> 300)
     \<or> (evalDiff es ea \<le> 150 \<and> evalType es = Mate \<and> evalType ea \<noteq> Mate)"
  by (auto simp: moveQuality_def BLUNDER_THRESHOLD_def MISTAKE_THRESHOLD_def)

lemma classify_simps:
  "isHumanMove humanWhite W"
  "evalDiff \<lparr>evalType = Cp, evalValue = a\<rparr> \<lparr>evalType = Cp, evalValue = b\<rparr> = a + b"
  "evalDiff \<lparr>evalType = Mate, evalValue = n\<rparr> \<lparr>evalType = Cp, evalValue = b\<rparr>
     = sgn n * (10000 - \<bar>n\<bar>) + b"
  "evalDiff \<lparr>evalType = Cp, evalValue = a\<rparr> \<lparr>evalType = Mate, evalValue = 0\<rparr> = a - 10000"
  by (simp_all add: isHumanMove_def humanWhite_def evalDiff_def cpActualResult_def)

lemma loop_prefix:
  assumes "replay C chess pre = Some p"
    and "analysisLoop C engine pl pre i chess cur acc = Inr (es, lg)"
  shows "lg = [] \<and> length es = length acc + length pre
         \<and> (\<exists>cur'. \<forall>rest. analysisLoop C engine pl (pre @ rest) i chess cur acc
                            = analysisLoop C engine pl rest (i + length pre) p cur' es)"
  using assms
proof (induction pre arbitrary: i chess cur acc)
  case Nil
  then show ?case by auto
next
  case (Cons m ms)
  from Cons.prems(1) obtain chess' where mv: "chessMove C chess m = Moved chess'"
    and rp: "replay C chess' ms = Some p"
    by (auto split: move_result.splits)
  show ?case
  proof (cases "isGameOver C chess'")
    case True
    with Cons.prems(2) mv
    have "analysisLoop C engine pl ms (Suc i) chess'
            \<lparr>evaluation = gameOverEval C chess', bestMove = None, principalVariation = []\<rparr>
            (acc @ [plyEntry pl i (chessTurn C chess) m (chessFen C chess') cur
                      (gameOverEval C chess')]) = Inr (es, lg)"
      by (simp add: Let_def)
    from Cons.IH [OF rp this] mv True show ?thesis by (simp add: Let_def)
  next
    case False
    with Cons.prems(2) mv obtain nxt where en: "engine (Suc i) (chessFen C chess') = Inr nxt"
      and "analysisLoop C engine pl ms (Suc i) chess' nxt
            (acc @ [plyEntry pl i (chessTurn C chess) m (chessFen C chess') cur
                      (evaluation nxt)]) = Inr (es, lg)"
      by (auto simp: Let_def split: sum.splits)
    from Cons.IH [OF rp this(2)] mv False en show ?thesis by (simp add: Let_def)
  qed
qed

lemma loop_prefix_exists:
  assumes "replay C chess pre = Some p"
    and "analysisLoop C engine pl (pre @ rest) i chess cur acc = Inr r"
  shows "\<exists>es. analysisLoop C engine pl pre i chess cur acc = Inr (es, [])"
  using assms
proof (induction pre arbitrary: i chess cur acc)
  case Nil
  then show ?case by simp
next
  case (Cons m ms)
  from Cons.prems(1) obtain chess' where mv: "chessMove C chess m = Moved chess'"
    and rp: "replay C chess' ms = Some p"
    by (auto split: move_result.splits)
  show ?case
  proof (cases "isGameOver C chess'")
    case True
    with Cons.prems(2) mv Cons.IH [OF rp] show ?thesis by (simp add: Let_def)
  next
    case False
    with Cons.prems(2) mv obtain nxt where en: "engine (Suc i) (chessFen C chess') = Inr nxt"
      by (auto simp: Let_def split: sum.splits)
    with False Cons.prems(2) mv Cons.IH [OF rp] show ?thesis by (simp add: Let_def)
  qed
qed

lemma analyzeGame_run:
  assumes "games S gid = Some gameDoc" "status gameDoc = Finished" "analysis gameDoc = []"
    and "engine 0 (chessFen C (newChess C)) = Inr a0"
    and "analysisLoop C engine (players gameDoc) (moves gameDoc) 0 (newChess C) a0 []
           = Inr (es, lg)"
  shows "fst (analyzeGame C engine gid S) = Inr (gameDoc\<lparr>analysis := es, status := Finished\<rparr>)"
    and "games (snd (analyzeGame C engine gid S))
           = (games S)(gid \<mapsto> gameDoc\<lparr>analysis := es, status := Finished\<rparr>)"
    and "logs (snd (analyzeGame C engine gid S))
           = logs S @ [(Info, ''Starting analysis for game '' @ gid @ ''...'')] @ lg
               @ [(Info, ''Game '' @ gid @ '' analysis complete.'')]"
  using assms by (simp_all add: analyzeGame_def Let_def logLine_def)

lemma analyzeGame_returns:
  assumes "games S gid = Some gameDoc" "status gameDoc = Finished" "analysis gameDoc = []"
    and "analyzeGame C engine gid S = (Inr gameDoc', S')"
  shows "\<exists>a0 es lg. engine 0 (chessFen C (newChess C)) = Inr a0
           \<and> analysisLoop C engine (players gameDoc) (moves gameDoc) 0 (newChess C) a0 []
               = Inr (es, lg)
           \<and> gameDoc' = gameDoc\<lparr>analysis := es, status := Finished\<rparr>"
  using assms by (auto simp: analyzeGame_def Let_def split: sum.splits prod.splits)

lemma miniChess_simps [simp]:
  "newChess miniChess = []"
  "chessMove miniChess p m = (if m = ''zz'' then Null
                          else if m = ''xx'' then Throws ''Invalid move: xx''
                          else Moved (p @ [m]))"
  "chessTurn miniChess p = (if even (length p) then W else B)"
  "chessFen miniChess p = concat (map (\<lambda>m. m @ '' '') p)"
  "chessPgn miniChess p = concat (map (\<lambda>m. m @ '' '') p)"
  "isGameOver miniChess p = (p \<noteq> [] \<and> (last p = ''Qxf7#'' \<or> last p = ''draw''))"
  "isCheckmate miniChess p = (p \<noteq> [] \<and> last p = ''Qxf7#'')"
  "isDraw miniChess p = (p \<noteq> [] \<and> last p = ''draw'')"
  by (simp_all add: miniChess_def)

lemma archive_simps [simp]:
  "games (archive ms) ''g1'' = Some (finishedGame ms)"
  "logs (archive ms) = []"
  "status (finishedGame ms) = Finished"
  "analysis (finishedGame ms) = []"
  "moves (finishedGame ms) = ms"
  "players (finishedGame ms) = humanWhite"
  by (simp_all add: archive_def finishedGame_def initialServer_def)

lemma cpEngine_simp [simp]: "cpEngine v k f = Inr (cpAnalysis v)"
  by (simp add: cpEngine_def)

lemma cpAnalysis_simps [simp]:
  "evaluation (cpAnalysis v) = \<lparr>evalType = Cp, evalValue = v\<rparr>"
  "bestMove (cpAnalysis v) = Some ''e2e4''"
  by (simp_all add: cpAnalysis_def)

lemma loop_e4:
  "analysisLoop miniChess (cpEngine v) humanWhite [''e4''] 0 [] (cpAnalysis v) []
     = Inr ([plyEntry humanWhite 0 W ''e4'' ''e4 '' (cpAnalysis v)
               \<lparr>evalType = Cp, evalValue = v\<rparr>], [])"
  by (simp add: Let_def)

lemma loop_mate:
  "analysisLoop miniChess (cpEngine v) humanWhite [''e4'', ''e5'', ''Qxf7#''] 0 []
       (cpAnalysis v) []
     = Inr ([plyEntry humanWhite 0 W ''e4'' ''e4 '' (cpAnalysis v)
               \<lparr>evalType = Cp, evalValue = v\<rparr>,
             plyEntry humanWhite 1 B ''e5'' ''e4 e5 '' (cpAnalysis v)
               \<lparr>evalType = Cp, evalValue = v\<rparr>,
             plyEntry humanWhite 2 W ''Qxf7#'' ''e4 e5 Qxf7# '' (cpAnalysis v)
               \<lparr>evalType = Mate, evalValue = 0\<rparr>], [])"
  by (simp add: Let_def gameOverEval_def eval_nat_numeral)

lemma analyzeGame_mate_fst:
  "fst (analyzeGame miniChess (cpEngine v) ''g1'' (archive [''e4'', ''e5'', ''Qxf7#'']))
     = Inr ((finishedGame [''e4'', ''e5'', ''Qxf7#''])
               \<lparr>analysis :=
                  [plyEntry humanWhite 0 W ''e4'' ''e4 '' (cpAnalysis v)
                     \<lparr>evalType = Cp, evalValue = v\<rparr>,
                   plyEntry humanWhite 1 B ''e5'' ''e4 e5 '' (cpAnalysis v)
                     \<lparr>evalType = Cp, evalValue = v\<rparr>,
                   plyEntry humanWhite 2 W ''Qxf7#'' ''e4 e5 Qxf7# '' (cpAnalysis v)
                     \<lparr>evalType = Mate, evalValue = 0\<rparr>],
                 status := Finished\<rparr>)"
proof -
  have e: "cpEngine v 0 (chessFen miniChess (newChess miniChess)) = Inr (cpAnalysis v)"
    by simp
  have l: "analysisLoop miniChess (cpEngine v) (players (finishedGame [''e4'', ''e5'', ''Qxf7#'']))
       (moves (finishedGame [''e4'', ''e5'', ''Qxf7#''])) 0 (newChess miniChess) (cpAnalysis v) []
     = Inr ([plyEntry humanWhite 0 W ''e4'' ''e4 '' (cpAnalysis v)
               \<lparr>evalType = Cp, evalValue = v\<rparr>,
             plyEntry humanWhite 1 B ''e5'' ''e4 e5 '' (cpAnalysis v)
               \<lparr>evalType = Cp, evalValue = v\<rparr>,
             plyEntry humanWhite 2 W ''Qxf7#'' ''e4 e5 Qxf7# '' (cpAnalysis v)
               \<lparr>evalType = Mate, evalValue = 0\<rparr>], [])"
    by (simp only: archive_simps miniChess_simps loop_mate)
  show ?thesis
    by (rule analyzeGame_run(1) [OF archive_simps(1) archive_simps(3) archive_simps(4) e l])
qed

lemma analyzeGame_mate:
  "analyzeGame miniChess (cpEngine v) ''g1'' (archive [''e4'', ''e5'', ''Qxf7#''])
     = (Inr ((finishedGame [''e4'', ''e5'', ''Qxf7#''])
               \<lparr>analysis :=
                  [plyEntry humanWhite 0 W ''e4'' ''e4 '' (cpAnalysis v)
                     \<lparr>evalType = Cp, evalValue = v\<rparr>,
                   plyEntry humanWhite 1 B ''e5'' ''e4 e5 '' (cpAnalysis v)
                     \<lparr>evalType = Cp, evalValue = v\<rparr>,
                   plyEntry humanWhite 2 W ''Qxf7#'' ''e4 e5 Qxf7# '' (cpAnalysis v)
                     \<lparr>evalType = Mate, evalValue = 0\<rparr>],
                 status := Finished\<rparr>),
        snd (analyzeGame miniChess (cpEngine v) ''g1'' (archive [''e4'', ''e5'', ''Qxf7#''])))"
  by (simp only: prod_eq_iff fst_conv snd_conv analyzeGame_mate_fst simp_thms)

lemma makeMove_not_humans_turn_error:
  assumes "activeGames S gid = Some gameData" "games S gid = Some gameDoc"
    and "status gameDoc = Playing"
    and "chessTurn C (chessInstance gameData)
           \<noteq> (if white (activePlayers gameData) = ''Human'' then W else B)"
  shows "makeMove C reply gid mv S
           = (Inl (Error (''It's not the human's turn. Current turn: ''
                            @ showColor (chessTurn C (chessInstance gameData)))), S)"
  using assms by (auto simp: makeMove_def Let_def)

lemma difficulty_table_monotone:
  assumes "1 \<le> l" "l < 10"
    and "stockfishDifficultyLevels l = Some a" "stockfishDifficultyLevels (l + 1) = Some b"
  shows "skillLevel a \<le> skillLevel b \<and> elo a \<le> elo b \<and> contempt a \<le> contempt b
         \<and> depth a \<le> depth b \<and> (2 \<le> l \<longrightarrow> movetime a \<le> movetime b)"
proof -
  from assms(1,2) have "l \<in> {1, 2, 3, 4, 5, 6, 7, 8, 9}" by auto
  with assms(3,4) show ?thesis
    by (auto simp: stockfishDifficultyLevels_def difficultyTable_def)
qed

subsection \<open>The claims about the analysis\<close>

text \<open>
  Claim C1, as the code has it. Let the moves before ply \<open>length pre\<close> replay and their
  positions be analysed without an engine failure, giving the entries \<open>es\<close>, and let
  the move \<open>m\<close> of that ply not be replayable (the rules engine returns \<^verbatim>\<open>null\<close> or
  throws). Then the loop ends at that ply; \<^verbatim>\<open>analyzeGame\<close> stores exactly \<open>es\<close>, one
  entry for each earlier ply, as the analysis, sets the status back to finished and
  returns the updated document: no error reaches the caller. The failure is written to
  the error log only.
\<close>

theorem replay_failure_ends_analysis:
  assumes "games S gid = Some gameDoc" "status gameDoc = Finished" "analysis gameDoc = []"
    and "moves gameDoc = pre @ m # post"
    and "replay C (newChess C) pre = Some p"
    and "replay C p [m] = None"
    and "engine 0 (chessFen C (newChess C)) = Inr a0"
    and "analysisLoop C engine (players gameDoc) pre 0 (newChess C) a0 [] = Inr (es, lg)"
  shows "fst (analyzeGame C engine gid S) = Inr (gameDoc\<lparr>analysis := es, status := Finished\<rparr>)
         \<and> games (snd (analyzeGame C engine gid S)) gid
             = Some (gameDoc\<lparr>analysis := es, status := Finished\<rparr>)
         \<and> length es = length pre
         \<and> logs (snd (analyzeGame C engine gid S))
             = logs S @
               [(Info, ''Starting analysis for game '' @ gid @ ''...''),
                (LError, ''Analysis failed at move '' @ showNat (length pre + 1) @ '' ('' @ m
                           @ ''): ''
                           @ (case chessMove C p m of
                                Throws thrown \<Rightarrow> thrown
                              | _ \<Rightarrow> ''Invalid SAN: '' @ m)),
                (Info, ''Game '' @ gid @ '' analysis complete.'')]"
proof -
  from loop_prefix [OF assms(5) assms(8)] obtain cur'
    where len: "length es = length pre" and lg: "lg = []"
      and cont: "analysisLoop C engine (players gameDoc) (pre @ m # post) 0 (newChess C) a0 []
                   = analysisLoop C engine (players gameDoc) (m # post) (length pre) p cur' es"
    by auto
  from assms(6) have "chessMove C p m = Null \<or> (\<exists>t. chessMove C p m = Throws t)"
    by (simp split: move_result.splits)
  then have "analysisLoop C engine (players gameDoc) (m # post) (length pre) p cur' es
      = Inr (es, [(LError, ''Analysis failed at move '' @ showNat (length pre + 1) @ '' ('' @ m
                           @ ''): ''
                           @ (case chessMove C p m of
                                Throws thrown \<Rightarrow> thrown
                              | _ \<Rightarrow> ''Invalid SAN: '' @ m))])"
    by (auto simp: Let_def)
  with cont assms(4)
  have "analysisLoop C engine (players gameDoc) (moves gameDoc) 0 (newChess C) a0 []
      = Inr (es, [(LError, ''Analysis failed at move '' @ showNat (length pre + 1) @ '' ('' @ m
                           @ ''): ''
                           @ (case chessMove C p m of
                                Throws thrown \<Rightarrow> thrown
                              | _ \<Rightarrow> ''Invalid SAN: '' @ m))])"
    by simp
  from analyzeGame_run [OF assms(1-3) assms(7) this] len show ?thesis by simp
qed

text \<open>
  The theorem on the move list \<open>e4 zz e5\<close>, whose second move the rules engine
  rejects.
\<close>

theorem replay_failure_ends_analysis_witness:
  "replay miniChess (newChess miniChess) [''e4''] = Some [''e4'']
   \<and> replay miniChess [''e4''] [''zz''] = None
   \<and> fst (analyzeGame miniChess (cpEngine 30) ''g1'' (archive [''e4'', ''zz'', ''e5'']))
       = Inr ((finishedGame [''e4'', ''zz'', ''e5''])
                \<lparr>analysis := [plyEntry humanWhite 0 W ''e4'' ''e4 '' (cpAnalysis 30)
                                 \<lparr>evalType = Cp, evalValue = 30\<rparr>],
                  status := Finished\<rparr>)
   \<and> logs (snd (analyzeGame miniChess (cpEngine 30) ''g1'' (archive [''e4'', ''zz'', ''e5''])))
       = [(Info, ''Starting analysis for game g1...''),
          (LError, ''Analysis failed at move 2 (zz): Invalid SAN: zz''),
          (Info, ''Game g1 analysis complete.'')]"
  using replay_failure_ends_analysis [of "archive [''e4'', ''zz'', ''e5'']" "''g1''"
      "finishedGame [''e4'', ''zz'', ''e5'']" "[''e4'']" "''zz''" "[''e5'']" miniChess "[''e4'']"
      "cpEngine 30" "cpAnalysis 30" _ "[]"]
  by (simp add: loop_e4 showNat_digit)

text \<open>
  Claim C1 as stated fails: for the same game \<^verbatim>\<open>analyzeGame\<close> returns normally, and the
  stored game is finished and has an analysis of one entry.
\<close>

theorem replay_failure_reported_counterexample:
  "replay miniChess (newChess miniChess) [''e4''] = Some [''e4'']
   \<and> replay miniChess [''e4''] [''zz''] = None
   \<and> \<not> isl (fst (analyzeGame miniChess (cpEngine 30) ''g1'' (archive [''e4'', ''zz'', ''e5''])))
   \<and> map_option status
         (games (snd (analyzeGame miniChess (cpEngine 30) ''g1''
                        (archive [''e4'', ''zz'', ''e5'']))) ''g1'')
       = Some Finished
   \<and> map_option (\<lambda>d. length (analysis d))
         (games (snd (analyzeGame miniChess (cpEngine 30) ''g1''
                        (archive [''e4'', ''zz'', ''e5'']))) ''g1'')
       = Some 1"
  by (simp add: analyzeGame_def Let_def)

text \<open>
  Claim C2, as the code has it. Let the last ply of a finished game be played by the
  human and give checkmate, and let the analysis return. Then there is one entry for
  every ply, and the score used for the position after the last ply is 10000, whatever
  the evaluation before it. The drop of the last ply is the advantage \<open>cpStart\<close> before
  it minus 10000: the entry is a blunder exactly when that exceeds 300 and a mistake
  exactly when it is above 150 and at most 300, so the entry carries no flag when
  \<open>cpStart\<close> is at most 10150.
\<close>

theorem human_checkmate_final_ply:
  assumes "games S gid = Some gameDoc" "status gameDoc = Finished" "analysis gameDoc = []"
    and "moves gameDoc = pre @ [m]"
    and "replay C (newChess C) pre = Some p"
    and "chessMove C p m = Moved p'"
    and "isGameOver C p'" "isCheckmate C p'"
    and "isHumanMove (players gameDoc) (chessTurn C p)"
    and "analyzeGame C engine gid S = (Inr gameDoc', S')"
  shows "let e = last (analysis gameDoc');
             cpStart = getCpValue (entryEvaluation e)
         in length (analysis gameDoc') = length (moves gameDoc)
            \<and> move e = m
            \<and> cpActualResult (gameOverEval C p') = 10000
            \<and> (isBlunder e \<longleftrightarrow> cpStart - 10000 > 300)
            \<and> (isMistake e \<longleftrightarrow> 150 < cpStart - 10000 \<and> cpStart - 10000 \<le> 300)
            \<and> (cpStart \<le> 10150 \<longrightarrow> \<not> isMistake e \<and> \<not> isBlunder e)"
proof -
  from analyzeGame_returns [OF assms(1-3) assms(10)] obtain a0 es lg
    where loop: "analysisLoop C engine (players gameDoc) (pre @ [m]) 0 (newChess C) a0 []
                   = Inr (es, lg)"
      and doc: "gameDoc' = gameDoc\<lparr>analysis := es, status := Finished\<rparr>"
    by (auto simp: assms(4))
  from loop_prefix_exists [OF assms(5) loop] obtain es0
    where "analysisLoop C engine (players gameDoc) pre 0 (newChess C) a0 [] = Inr (es0, [])"
    by auto
  from loop_prefix [OF assms(5) this] loop obtain cur'
    where len: "length es0 = length pre"
      and "analysisLoop C engine (players gameDoc) [m] (length pre) p cur' es0 = Inr (es, lg)"
    by auto
  with assms(6,7)
  have es: "es = es0 @ [plyEntry (players gameDoc) (length pre) (chessTurn C p) m (chessFen C p')
                          cur' (gameOverEval C p')]"
    by (simp add: Let_def)
  have ev: "gameOverEval C p' = \<lparr>evalType = Mate, evalValue = 0\<rparr>"
    using assms(8) by (simp add: gameOverEval_def)
  have diff: "evalDiff (evaluation cur') (gameOverEval C p')
                = getCpValue (evaluation cur') - 10000"
    by (simp add: ev evalDiff_def cpActualResult_def)
  show ?thesis
    using assms(9) len
    by (simp add: Let_def doc es assms(4) plyEntry_flags moveQuality_human diff)
      (simp add: ev cpActualResult_def)
qed

text \<open>
  The theorem on the game \<open>e4 e5 Qxf7#\<close>, every position of which the engine scores as
  30 centipawns.
\<close>

theorem human_checkmate_final_ply_witness:
  "replay miniChess (newChess miniChess) [''e4'', ''e5''] = Some [''e4'', ''e5'']
   \<and> chessMove miniChess [''e4'', ''e5''] ''Qxf7#'' = Moved [''e4'', ''e5'', ''Qxf7#'']
   \<and> isGameOver miniChess [''e4'', ''e5'', ''Qxf7#'']
   \<and> isCheckmate miniChess [''e4'', ''e5'', ''Qxf7#'']
   \<and> isHumanMove humanWhite (chessTurn miniChess [''e4'', ''e5''])
   \<and> \<not> isl (fst (analyzeGame miniChess (cpEngine 30) ''g1''
                     (archive [''e4'', ''e5'', ''Qxf7#''])))
   \<and> getCpValue (entryEvaluation (last (analysis (projr (fst
         (analyzeGame miniChess (cpEngine 30) ''g1'' (archive [''e4'', ''e5'', ''Qxf7#''])))))))
       = 30
   \<and> \<not> isMistake (last (analysis (projr (fst
         (analyzeGame miniChess (cpEngine 30) ''g1'' (archive [''e4'', ''e5'', ''Qxf7#'']))))))
   \<and> \<not> isBlunder (last (analysis (projr (fst
         (analyzeGame miniChess (cpEngine 30) ''g1'' (archive [''e4'', ''e5'', ''Qxf7#'']))))))"
  using human_checkmate_final_ply [OF archive_simps(1) archive_simps(3) archive_simps(4) _ _ _ _ _ _
      analyzeGame_mate [of 30], of "[''e4'', ''e5'']" "''Qxf7#''" "[''e4'', ''e5'']"
      "[''e4'', ''e5'', ''Qxf7#'']"]
  by (simp add: Let_def analyzeGame_mate_fst classify_simps plyEntry_flags)

text \<open>
  Claim C2 as stated fails: when the engine scores the position before the mating move
  as 10301 centipawns, the mating move of the human is flagged as a blunder.
\<close>

theorem human_checkmate_flagged_counterexample:
  "replay miniChess (newChess miniChess) [''e4'', ''e5''] = Some [''e4'', ''e5'']
   \<and> chessMove miniChess [''e4'', ''e5''] ''Qxf7#'' = Moved [''e4'', ''e5'', ''Qxf7#'']
   \<and> isCheckmate miniChess [''e4'', ''e5'', ''Qxf7#'']
   \<and> isHumanMove humanWhite (chessTurn miniChess [''e4'', ''e5''])
   \<and> \<not> isl (fst (analyzeGame miniChess (cpEngine 10301) ''g1''
                     (archive [''e4'', ''e5'', ''Qxf7#''])))
   \<and> isBlunder (last (analysis (projr (fst
         (analyzeGame miniChess (cpEngine 10301) ''g1''
            (archive [''e4'', ''e5'', ''Qxf7#'']))))))"
  by (simp add: analyzeGame_mate_fst classify_simps plyEntry_flags moveQuality_human)

text \<open>
  Claim C3, as the code has it. A centipawn evaluation is mapped to its value, whatever
  its size, and a mate evaluation of \<open>n\<close> moves to \<open>sgn n * (MATE_VALUE - \<bar>n\<bar>)\<close>. The sign
  of a mate evaluation is kept when \<open>\<bar>n\<bar> < MATE_VALUE\<close>; of two mate evaluations of the same
  sign and of at most \<open>MATE_VALUE\<close> moves the one with fewer moves has the strictly larger
  magnitude; and a mate evaluation of \<open>n \<noteq> 0\<close> moves, \<open>\<bar>n\<bar> \<le> MATE_VALUE\<close>, is larger in
  magnitude than a centipawn evaluation \<open>c\<close> exactly when \<open>\<bar>c\<bar> + \<bar>n\<bar> < MATE_VALUE\<close>.
\<close>

theorem getCpValue_scale:
  "getCpValue \<lparr>evalType = Cp, evalValue = c\<rparr> = c
   \<and> getCpValue \<lparr>evalType = Mate, evalValue = n\<rparr> = sgn n * (MATE_VALUE - \<bar>n\<bar>)
   \<and> (\<bar>n\<bar> < MATE_VALUE \<longrightarrow> sgn (getCpValue \<lparr>evalType = Mate, evalValue = n\<rparr>) = sgn n)
   \<and> (sgn m = sgn n \<and> \<bar>m\<bar> < \<bar>n\<bar> \<and> \<bar>n\<bar> \<le> MATE_VALUE \<longrightarrow>
         \<bar>getCpValue \<lparr>evalType = Mate, evalValue = m\<rparr>\<bar>
           > \<bar>getCpValue \<lparr>evalType = Mate, evalValue = n\<rparr>\<bar>)
   \<and> (n \<noteq> 0 \<and> \<bar>n\<bar> \<le> MATE_VALUE \<longrightarrow>
         (\<bar>getCpValue \<lparr>evalType = Mate, evalValue = n\<rparr>\<bar>
            > \<bar>getCpValue \<lparr>evalType = Cp, evalValue = c\<rparr>\<bar>
          \<longleftrightarrow> \<bar>c\<bar> + \<bar>n\<bar> < MATE_VALUE))"
  by (auto simp: MATE_VALUE_def sgn_if abs_if split: if_splits)

text \<open>
  The theorem at mate in 1, mate in 5 and mate in -5, against 500 centipawns (outranked
  by mate in -5) and 9995 centipawns (not outranked by it).
\<close>

theorem getCpValue_scale_witness:
  "getCpValue \<lparr>evalType = Cp, evalValue = 500\<rparr> = 500
   \<and> getCpValue \<lparr>evalType = Mate, evalValue = 1\<rparr> = 9999
   \<and> getCpValue \<lparr>evalType = Mate, evalValue = -5\<rparr> = -9995
   \<and> \<bar>(-5::int)\<bar> < MATE_VALUE
   \<and> sgn (getCpValue \<lparr>evalType = Mate, evalValue = -5\<rparr>) = sgn (-5)
   \<and> sgn (1::int) = sgn 5 \<and> \<bar>1::int\<bar> < \<bar>5\<bar> \<and> \<bar>5::int\<bar> \<le> MATE_VALUE
   \<and> \<bar>getCpValue \<lparr>evalType = Mate, evalValue = 1\<rparr>\<bar>
       > \<bar>getCpValue \<lparr>evalType = Mate, evalValue = 5\<rparr>\<bar>
   \<and> (-5::int) \<noteq> 0 \<and> \<bar>500::int\<bar> + \<bar>-5\<bar> < MATE_VALUE
   \<and> \<bar>getCpValue \<lparr>evalType = Mate, evalValue = -5\<rparr>\<bar>
       > \<bar>getCpValue \<lparr>evalType = Cp, evalValue = 500\<rparr>\<bar>
   \<and> \<not> \<bar>(9995::int)\<bar> + \<bar>-5\<bar> < MATE_VALUE
   \<and> \<not> \<bar>getCpValue \<lparr>evalType = Mate, evalValue = -5\<rparr>\<bar>
       > \<bar>getCpValue \<lparr>evalType = Cp, evalValue = 9995\<rparr>\<bar>"
  using getCpValue_scale [where m = 1 and n = 5 and c = 500]
    getCpValue_scale [where n = "-5" and m = 1 and c = 500]
    getCpValue_scale [where n = "-5" and m = 1 and c = 9995]
  by (simp add: MATE_VALUE_def)

text \<open>
  Claim C3 as stated fails: mate in 1 maps to 9999, which does not exceed the magnitude
  of a centipawn evaluation of 10000.
\<close>

theorem mate_not_above_centipawns_counterexample:
  "\<not> \<bar>getCpValue \<lparr>evalType = Mate, evalValue = 1\<rparr>\<bar>
       > \<bar>getCpValue \<lparr>evalType = Cp, evalValue = 10000\<rparr>\<bar>"
  by simp

text \<open>
  Claim C4, as the code has it. For a ply played by the human the drop is the advantage
  before the move minus the negated advantage after it, unless the move gives
  checkmate (the evaluation after it is mate in 0), where the drop is the advantage
  before the move minus 10000. The entry is a blunder exactly when the drop exceeds 300.
  It is a mistake exactly when the drop exceeds 150 and is at most 300, or the drop is
  at most 150 and a mate before the move is no mate after it.
\<close>

theorem human_ply_classification:
  assumes "isHumanMove pl turnColor"
  shows "let e = plyEntry pl i turnColor moveSan fenAfterMove currentAnalysis evalAfter;
             evalStart = evaluation currentAnalysis;
             drop = evalDiff evalStart evalAfter
         in (\<not> (evalType evalAfter = Mate \<and> evalValue evalAfter = 0) \<longrightarrow>
               drop = getCpValue evalStart - (- getCpValue evalAfter))
            \<and> (evalType evalAfter = Mate \<and> evalValue evalAfter = 0 \<longrightarrow>
                 drop = getCpValue evalStart - 10000)
            \<and> (isBlunder e \<longleftrightarrow> drop > 300)
            \<and> (isMistake e \<longleftrightarrow>
                 (150 < drop \<and> drop \<le> 300)
                 \<or> (drop \<le> 150 \<and> evalType evalStart = Mate \<and> evalType evalAfter \<noteq> Mate))"
  using assms
  by (simp add: Let_def plyEntry_flags moveQuality_human)
    (auto simp: evalDiff_def cpActualResult_def)

text \<open>
  The theorem at the drops 540, 150, 151 and 301, and at a mating move.
\<close>

theorem human_ply_classification_witness:
  "isHumanMove humanWhite W
   \<and> evalDiff (evaluation (cpAnalysis 120)) \<lparr>evalType = Cp, evalValue = 420\<rparr> = 540
   \<and> isBlunder (plyEntry humanWhite 0 W ''e4'' ''e4 '' (cpAnalysis 120)
                   \<lparr>evalType = Cp, evalValue = 420\<rparr>)
   \<and> \<not> isMistake (plyEntry humanWhite 0 W ''e4'' ''e4 '' (cpAnalysis 120)
                   \<lparr>evalType = Cp, evalValue = 420\<rparr>)
   \<and> evalDiff (evaluation (cpAnalysis 100)) \<lparr>evalType = Cp, evalValue = 50\<rparr> = 150
   \<and> \<not> isBlunder (plyEntry humanWhite 0 W ''e4'' ''e4 '' (cpAnalysis 100)
                   \<lparr>evalType = Cp, evalValue = 50\<rparr>)
   \<and> \<not> isMistake (plyEntry humanWhite 0 W ''e4'' ''e4 '' (cpAnalysis 100)
                   \<lparr>evalType = Cp, evalValue = 50\<rparr>)
   \<and> evalDiff (evaluation (cpAnalysis 100)) \<lparr>evalType = Cp, evalValue = 51\<rparr> = 151
   \<and> isMistake (plyEntry humanWhite 0 W ''e4'' ''e4 '' (cpAnalysis 100)
                   \<lparr>evalType = Cp, evalValue = 51\<rparr>)
   \<and> evalDiff (evaluation (cpAnalysis 100)) \<lparr>evalType = Cp, evalValue = 201\<rparr> = 301
   \<and> isBlunder (plyEntry humanWhite 0 W ''e4'' ''e4 '' (cpAnalysis 100)
                   \<lparr>evalType = Cp, evalValue = 201\<rparr>)
   \<and> evalDiff (evaluation (cpAnalysis 500)) \<lparr>evalType = Mate, evalValue = 0\<rparr> = - 9500
   \<and> \<not> isBlunder (plyEntry humanWhite 0 W ''Qxf7#'' ''Qxf7# '' (cpAnalysis 500)
                   \<lparr>evalType = Mate, evalValue = 0\<rparr>)"
  using human_ply_classification [OF classify_simps(1), of 0 "''e4''" "''e4 ''" "cpAnalysis 120"
      "\<lparr>evalType = Cp, evalValue = 420\<rparr>"]
    human_ply_classification [OF classify_simps(1), of 0 "''e4''" "''e4 ''" "cpAnalysis 100"
      "\<lparr>evalType = Cp, evalValue = 50\<rparr>"]
    human_ply_classification [OF classify_simps(1), of 0 "''e4''" "''e4 ''" "cpAnalysis 100"
      "\<lparr>evalType = Cp, evalValue = 51\<rparr>"]
    human_ply_classification [OF classify_simps(1), of 0 "''e4''" "''e4 ''" "cpAnalysis 100"
      "\<lparr>evalType = Cp, evalValue = 201\<rparr>"]
    human_ply_classification [OF classify_simps(1), of 0 "''Qxf7#''" "''Qxf7# ''" "cpAnalysis 500"
      "\<lparr>evalType = Mate, evalValue = 0\<rparr>"]
  by (simp add: Let_def cpAnalysis_def classify_simps)

text \<open>
  Claim C4 as stated fails for a mating move: with 500 centipawns before the move, the
  advantage before minus the negated advantage after is 500, above 300, and the entry is
  no blunder. It fails for a missed mate too: from mate in 3 to -9900 centipawns for the
  opponent the drop is 97, not above 150, and the entry is a mistake.
\<close>

theorem drop_thresholds_counterexample:
  "isHumanMove humanWhite W
   \<and> getCpValue (evaluation (cpAnalysis 500))
       - (- getCpValue \<lparr>evalType = Mate, evalValue = 0\<rparr>) > 300
   \<and> \<not> isBlunder (plyEntry humanWhite 0 W ''Qxf7#'' ''Qxf7# '' (cpAnalysis 500)
                   \<lparr>evalType = Mate, evalValue = 0\<rparr>)
   \<and> getCpValue (evaluation (mateAnalysis 3))
       - (- getCpValue \<lparr>evalType = Cp, evalValue = -9900\<rparr>) = 97
   \<and> isMistake (plyEntry humanWhite 0 W ''e4'' ''e4 '' (mateAnalysis 3)
                  \<lparr>evalType = Cp, evalValue = -9900\<rparr>)"
  by (simp add: cpAnalysis_def mateAnalysis_def classify_simps plyEntry_flags moveQuality_human)

text \<open>
  Claim C5, as the code has it. A ply of the human from a position with a forced mate to
  a position with a centipawn evaluation is always flagged: as a blunder when the drop
  exceeds 300, as a mistake otherwise, and with the missed-mate comment when the drop is
  at most 150.
\<close>

theorem missed_mate_flagged:
  assumes "isHumanMove pl turnColor"
    and "evalType (evaluation currentAnalysis) = Mate"
    and "evalType evalAfter = Cp"
  shows "let e = plyEntry pl i turnColor moveSan fenAfterMove currentAnalysis evalAfter;
             drop = evalDiff (evaluation currentAnalysis) evalAfter
         in (isBlunder e \<longleftrightarrow> drop > 300)
            \<and> (isMistake e \<longleftrightarrow> drop \<le> 300)
            \<and> (drop \<le> 150 \<longrightarrow>
                 comment e = ''Missed Mate. Best move was ''
                               @ showMove (bestMove currentAnalysis) @ ''.'')"
  using assms
  by (simp add: Let_def plyEntry_flags moveQuality_human)
    (auto simp: moveQuality_def BLUNDER_THRESHOLD_def MISTAKE_THRESHOLD_def)

text \<open>
  The theorem at mate in 3 before and -9900 centipawns after the move: the drop is 97.
\<close>

theorem missed_mate_flagged_witness:
  "isHumanMove humanWhite W
   \<and> evalType (evaluation (mateAnalysis 3)) = Mate
   \<and> evalType \<lparr>evalType = Cp, evalValue = -9900\<rparr> = Cp
   \<and> evalDiff (evaluation (mateAnalysis 3)) \<lparr>evalType = Cp, evalValue = -9900\<rparr> = 97
   \<and> isMistake (plyEntry humanWhite 0 W ''e4'' ''e4 '' (mateAnalysis 3)
                  \<lparr>evalType = Cp, evalValue = -9900\<rparr>)
   \<and> \<not> isBlunder (plyEntry humanWhite 0 W ''e4'' ''e4 '' (mateAnalysis 3)
                  \<lparr>evalType = Cp, evalValue = -9900\<rparr>)
   \<and> comment (plyEntry humanWhite 0 W ''e4'' ''e4 '' (mateAnalysis 3)
                  \<lparr>evalType = Cp, evalValue = -9900\<rparr>)
       = ''Missed Mate. Best move was d1h5.''"
  using missed_mate_flagged [of humanWhite W "mateAnalysis 3"
      "\<lparr>evalType = Cp, evalValue = -9900\<rparr>" 0 "''e4''" "''e4 ''"]
  by (simp add: Let_def mateAnalysis_def classify_simps showMove_def)

text \<open>
  Claim C5 as stated fails: from mate in 3 to 100 centipawns for the opponent the drop
  is 10097, and the entry is a blunder and no mistake.
\<close>

theorem missed_mate_blunder_counterexample:
  "isHumanMove humanWhite W
   \<and> evalType (evaluation (mateAnalysis 3)) = Mate
   \<and> evalType \<lparr>evalType = Cp, evalValue = 100\<rparr> = Cp
   \<and> \<not> isMistake (plyEntry humanWhite 0 W ''e4'' ''e4 '' (mateAnalysis 3)
                  \<lparr>evalType = Cp, evalValue = 100\<rparr>)
   \<and> isBlunder (plyEntry humanWhite 0 W ''e4'' ''e4 '' (mateAnalysis 3)
                  \<lparr>evalType = Cp, evalValue = 100\<rparr>)"
  by (simp add: mateAnalysis_def classify_simps plyEntry_flags moveQuality_human)

subsection \<open>The claim about the difficulty table\<close>

text \<open>
  Claim C7. The move time of level 1 is 1000 milliseconds and that of level 2 is 100:
  the move time is not monotone in the level. (Lemma \<open>difficulty_table_monotone\<close>: the
  skill level, the rating, the contempt and the depth never decrease from a level to
  the next, and neither does the move time from level 2 on.)
\<close>

theorem movetime_drops_after_level_one:
  "map_option movetime (stockfishDifficultyLevels 1) = Some 1000
   \<and> map_option movetime (stockfishDifficultyLevels 2) = Some 100"
  by (simp add: stockfishDifficultyLevels_def difficultyTable_def)

subsection \<open>The claim about playing a move\<close>

text \<open>
  Claim C10. When a game is active and the side to move is not the colour of the human,
  \<^verbatim>\<open>makeMove\<close> throws for every submitted move and leaves the whole state as it was: the
  position in \<^verbatim>\<open>activeGames\<close>, the stored document, the engine and the log.
\<close>

theorem makeMove_not_humans_turn:
  assumes "activeGames S gid = Some gameData"
    and "chessTurn C (chessInstance gameData)
           \<noteq> (if white (activePlayers gameData) = ''Human'' then W else B)"
  shows "isl (fst (makeMove C reply gid mv S)) \<and> snd (makeMove C reply gid mv S) = S"
  using assms by (auto simp: makeMove_def Let_def split: option.splits)

text \<open>
  The theorem on a game in which Black, the computer, is to move.
\<close>

theorem makeMove_not_humans_turn_witness:
  "activeGames (liveGame [''e4'']) ''g1''
     = Some \<lparr>chessInstance = [''e4''], activePlayers = humanWhite, activeDifficulty = 5\<rparr>
   \<and> chessTurn miniChess [''e4''] = B
   \<and> white humanWhite = ''Human''
   \<and> makeMove miniChess None ''g1'' ''e5'' (liveGame [''e4''])
       = (Inl (Error ''It's not the human's turn. Current turn: b''), liveGame [''e4''])"
  using makeMove_not_humans_turn [of "liveGame [''e4'']" "''g1''"
      "\<lparr>chessInstance = [''e4''], activePlayers = humanWhite, activeDifficulty = 5\<rparr>"
      miniChess None "''e5''"]
    makeMove_not_humans_turn_error [of "liveGame [''e4'']" "''g1''"
      "\<lparr>chessInstance = [''e4''], activePlayers = humanWhite, activeDifficulty = 5\<rparr>"
      "(finishedGame [''e4''])\<lparr>status := Playing, result := ''*''\<rparr>" miniChess None "''e5''"]
  by (simp add: liveGame_def humanWhite_def initialServer_def showColor_def)

end
